theory Spec2Isabelle
  imports Main
begin

section \<open>JavaScript strings\<close>

text \<open>
  A JavaScript string is modelled as a \<^typ>\<open>string\<close>, one \<^typ>\<open>char\<close> per code unit.
  The built-in string operations the scenario code calls are written out below for the
  code units of ASCII (plus the no-break space for \<open>trim\<close>).
\<close>

definition upperAZ :: "char \<Rightarrow> bool" where
  "upperAZ c = (c \<in> set ''ABCDEFGHIJKLMNOPQRSTUVWXYZ'')"

definition paramChar :: "char \<Rightarrow> bool" where
  \<comment> \<open>the character class \<open>[A-Za-z0-9_ -]\<close>\<close>
  "paramChar c =
     (c \<in> set ''ABCDEFGHIJKLMNOPQRSTUVWXYZabcdefghijklmnopqrstuvwxyz0123456789_ -'')"

definition lineTerminator :: "char \<Rightarrow> bool" where
  "lineTerminator c = (c = CHR 0x0A \<or> c = CHR 0x0D)"

definition whiteSpace :: "char \<Rightarrow> bool" where
  \<comment> \<open>what \<open>String.prototype.trim\<close> strips: white space and line terminators\<close>
  "whiteSpace c =
     (c = CHR 0x09 \<or> c = CHR 0x0A \<or> c = CHR 0x0B \<or> c = CHR 0x0C \<or> c = CHR 0x0D
      \<or> c = CHR 0x20 \<or> c = CHR 0xA0)"

definition js_trim :: "string \<Rightarrow> string" where
  "js_trim s = rev (dropWhile whiteSpace (rev (dropWhile whiteSpace s)))"

definition toLowerChar :: "char \<Rightarrow> char" where
  "toLowerChar c =
     (case map_of (zip ''ABCDEFGHIJKLMNOPQRSTUVWXYZ'' ''abcdefghijklmnopqrstuvwxyz'') c of
        Some d \<Rightarrow> d | None \<Rightarrow> c)"

definition toUpperChar :: "char \<Rightarrow> char" where
  "toUpperChar c =
     (case map_of (zip ''abcdefghijklmnopqrstuvwxyz'' ''ABCDEFGHIJKLMNOPQRSTUVWXYZ'') c of
        Some d \<Rightarrow> d | None \<Rightarrow> c)"

definition js_toLowerCase :: "string \<Rightarrow> string" where
  "js_toLowerCase s = map toLowerChar s"

definition js_toUpperCase :: "string \<Rightarrow> string" where
  "js_toUpperCase s = map toUpperChar s"

text \<open>Decimal rendering of an integer, as \<open>String(n)\<close> gives for an integral number.\<close>

definition digitChar :: "nat \<Rightarrow> char" where
  "digitChar d = ''0123456789'' ! (d mod 10)"

fun show_nat :: "nat \<Rightarrow> string" where
  "show_nat n = (if n < 10 then [digitChar n] else show_nat (n div 10) @ [digitChar n])"

declare show_nat.simps [simp del]

definition show_int :: "int \<Rightarrow> string" where
  "show_int i = (if i < 0 then CHR ''-'' # show_nat (nat (- i)) else show_nat (nat i))"

text \<open>
  \<open>/{[A-Za-z0-9_ -]+}/.test(s)\<close>: somewhere in \<open>s\<close> an opening brace, a non-empty run of
  class characters and a closing brace. The class excludes the closing brace, so the run
  that matches is the maximal one.
\<close>

definition paramHere :: "string \<Rightarrow> bool" where
  \<comment> \<open>the text after an opening brace continues a placeholder\<close>
  "paramHere cs =
     (takeWhile paramChar cs \<noteq> [] \<and>
      (case dropWhile paramChar cs of [] \<Rightarrow> False | d # _ \<Rightarrow> d = CHR ''}''))"

fun hasPathParam :: "string \<Rightarrow> bool" where
  "hasPathParam [] = False"
| "hasPathParam (c # cs) = ((c = CHR ''{'' \<and> paramHere cs) \<or> hasPathParam cs)"

text \<open>
  \<open>/([A-Z]+) (.*)/.exec(s)\<close>: the leftmost position where a run of capitals is followed
  by a space. Group 1 is the run, group 2 the rest of the line (\<open>.\<close> stops at a line
  terminator). A run of capitals not followed by a space matches at none of its
  positions, so the search resumes after the run.
\<close>

fun methodMatch :: "string \<Rightarrow> (string \<times> string) option" where
  "methodMatch [] = None"
| "methodMatch (c # cs) =
     (if upperAZ c then
        (case dropWhile upperAZ cs of
           [] \<Rightarrow> None
         | d # ds \<Rightarrow>
             if d = CHR '' ''
             then Some (c # takeWhile upperAZ cs, takeWhile (\<lambda>x. \<not> lineTerminator x) ds)
             else methodMatch cs)
      else methodMatch cs)"

text \<open>
  \<open>s.replace(pat, rep)\<close> with a string pattern: only the first occurrence of \<open>pat\<close> is
  replaced, and in \<open>rep\<close> the sequences \<open>$$\<close>, \<open>$&\<close>, \<open>$`\<close> and \<open>$'\<close> stand for a
  dollar sign, the matched text, the text before it and the text after it.
\<close>

fun findFirst :: "string \<Rightarrow> string \<Rightarrow> (string \<times> string) option" where
  \<comment> \<open>the text before and after the first occurrence of the pattern\<close>
  "findFirst pat [] = (if pat = [] then Some ([], []) else None)"
| "findFirst pat (c # cs) =
     (if take (length pat) (c # cs) = pat then Some ([], drop (length pat) (c # cs))
      else (case findFirst pat cs of
              None \<Rightarrow> None
            | Some (pre, post) \<Rightarrow> Some (c # pre, post)))"

fun getSubstitution :: "string \<Rightarrow> string \<Rightarrow> string \<Rightarrow> string \<Rightarrow> string" where
  "getSubstitution matched pre post [] = []"
| "getSubstitution matched pre post [c] = [c]"
| "getSubstitution matched pre post (c # d # r) =
     (if c = CHR ''$'' \<and> d = CHR ''$'' then CHR ''$'' # getSubstitution matched pre post r
      else if c = CHR ''$'' \<and> d = CHR ''&'' then matched @ getSubstitution matched pre post r
      else if c = CHR ''$'' \<and> d = CHR 0x60 then pre @ getSubstitution matched pre post r
      else if c = CHR ''$'' \<and> d = CHR 0x27 then post @ getSubstitution matched pre post r
      else c # getSubstitution matched pre post (d # r))"

definition js_replace :: "string \<Rightarrow> string \<Rightarrow> string \<Rightarrow> string" where
  "js_replace s pat rep =
     (case findFirst pat s of
        None \<Rightarrow> s
      | Some (pre, post) \<Rightarrow> pre @ getSubstitution pat pre post rep @ post)"

definition startsWith :: "string \<Rightarrow> string \<Rightarrow> bool" where
  "startsWith p s = (take (length p) s = p)"

section \<open>The scenario and its environment\<close>

text \<open>
  The log of a scenario is a list of items, appended to and never shortened. The item
  classes live outside \<open>scenario.ts\<close>; the scenario only constructs them and asks each
  item for its type.
\<close>

datatype log_item =
    LogScenarioHeading string
  | LogScenarioSubHeading string
  | LogComment string
  | AssertionPass string
  | AssertionFail string "string option"
  | AssertionFailWarning string

text \<open>
  Modelled from the spec: the item classes are absent from the sources at hand. The spec
  counts a failing assertion as a failing entry and says that the incomplete-assertion
  warning does not by itself fail the scenario, so only \<open>AssertionFail\<close> has the type
  \<open>resultFailure\<close>.
\<close>

fun resultFailure :: "log_item \<Rightarrow> bool" where
  "resultFailure (AssertionFail m d) = True"
| "resultFailure item = False"

text \<open>
  A value thrown by a callback, or the reason a promise is rejected with: \<open>undefined\<close>
  (\<open>Promise.reject()\<close>), \<open>null\<close>, or a string or error shown by its message.
\<close>

datatype thrown = ThrownUndefined | ThrownNull | Thrown string

text \<open>
  The callbacks a test author registers are the environment of the scenario. A callback
  is modelled by what the scenario can observe of one run: the log items it appends to
  the scenario while it runs, the time until the promise it returns settles, and whether
  it returns (resolves) or throws (rejects). \<open>cb_id\<close> names the callback in the trace.
\<close>

record callback =
  cb_id :: nat
  cb_logs :: "log_item list"
  cb_time :: nat
  cb_throws :: "thrown option"

text \<open>\<open>ScenarioCallbackAndMessage\<close> and \<open>ResponsePipeCallbackAndMessage\<close>.\<close>

record hook =
  message :: "string option"
  callback :: callback

text \<open>
  A promise that an assertion phase waits for settles after some milliseconds, fulfilled
  or rejected, or never settles.
\<close>

datatype settle = Fulfilled nat | Rejected nat thrown | Pending

text \<open>
  One run of an assertion phase (\<open>iNextCallback\<close>) in its \<open>AssertionContext\<close>: the items
  logged while the callback runs, the value it throws if it throws, the names of the
  assertions the context reports as incomplete when the callback has returned, and the
  three promises the scenario then waits for: the callback's return value,
  \<open>context.assertionsResolved\<close> and \<open>context.subScenariosResolved\<close>.
\<close>

record phase =
  ph_id :: nat
  ph_logs :: "log_item list"
  ph_throws :: "thrown option"
  ph_incomplete :: "string list"
  ph_return :: settle
  ph_assertions :: settle
  ph_subscenarios :: settle

datatype hook_kind = Before | After | Success | Failure | Finally | Pipe

datatype adapter = BrowserAdapter | DefaultAdapter | MockAdapter

text \<open>
  The trace of what the scenario did: a hook list was fired, a hook or pipe callback was
  called, the scenario's own \<open>comment\<close> method wrote a comment, an assertion phase was
  started at some time, the request was handed to an adapter.
\<close>

datatype event =
    Fired hook_kind
  | HookRan hook_kind nat
  | Commented string
  | PhaseStarted nat int
  | Dispatched adapter "string option"

text \<open>The part of a \<open>URL\<close> object that the scenario reads.\<close>

record url_obj =
  protocol :: string
  host :: string
  href :: string

text \<open>
  The scenario. The fields are those of the class, without the subscribers, the browser
  control, the request options other than the URI and the method, the redirect chain and
  the aliased data, which no operation below reads. \<open>nextCallbacks\<close> pairs each entry of
  \<open>_nextCallbacks\<close> with the entry of \<open>_nextMessages\<close> at the same index (the class
  always updates the two arrays together). \<open>suite_baseUrl\<close> is \<open>suite.baseUrl\<close> and
  \<open>responseTypeName\<close> is \<open>_response.responseTypeName\<close>. Two fields belong to the
  environment: \<open>now\<close> is what \<open>Date.now()\<close> returns, and \<open>events\<close> is the trace.
\<close>

record scenario =
  title :: string
  log :: "log_item list"
  nextCallbacks :: "(string option \<times> phase) list"
  beforeCallbacks :: "hook list"
  afterCallbacks :: "hook list"
  finallyCallbacks :: "hook list"
  failureCallbacks :: "hook list"
  successCallbacks :: "hook list"
  pipeCallbacks :: "hook list"
  timeScenarioInitialized :: int
  timeScenarioExecuted :: "int option"
  timeRequestStarted :: "int option"
  timeRequestLoaded :: "int option"
  timeScenarioFinished :: "int option"
  responseType :: string
  responseTypeName :: string
  finalUrl :: "string option"
  waitToExecute :: bool
  waitTime :: int
  isMock :: bool
  request_uri :: "string option"
  request_method :: string
  suite_baseUrl :: "url_obj option"
  now :: int
  events :: "event list"

text \<open>
  An operation either returns or throws; a throw keeps the changes made before it. For an
  \<open>async\<close> method, \<open>Threw\<close> is the rejection of the promise it returns.
\<close>

datatype 'a result = Ok 'a | Threw thrown 'a

fun state_of :: "'a result \<Rightarrow> 'a" where
  "state_of (Ok s) = s"
| "state_of (Threw e s) = s"

fun andThen :: "'a result \<Rightarrow> ('a \<Rightarrow> 'a result) \<Rightarrow> 'a result" where
  "andThen (Ok s) f = f s"
| "andThen (Threw e s) f = Threw e s"

text \<open>JavaScript truthiness of a \<open>string | null\<close>: neither \<open>null\<close> nor empty.\<close>

fun truthy :: "string option \<Rightarrow> bool" where
  "truthy None = False"
| "truthy (Some m) = (m \<noteq> [])"

subsection \<open>Getters\<close>

definition hasFailed :: "scenario \<Rightarrow> bool" where
  "hasFailed s = list_ex resultFailure (log s)"

definition hasExecuted :: "scenario \<Rightarrow> bool" where
  "hasExecuted s = (timeScenarioExecuted s \<noteq> None)"

definition hasFinished :: "scenario \<Rightarrow> bool" where
  "hasFinished s = (hasExecuted s \<and> timeScenarioFinished s \<noteq> None)"

definition hasPassed :: "scenario \<Rightarrow> bool" where
  "hasPassed s = (hasFinished s \<and> \<not> hasFailed s)"

definition url :: "scenario \<Rightarrow> string option" where
  "url s = request_uri s"

definition isImplicitWait :: "scenario \<Rightarrow> bool" where
  "isImplicitWait s = (case url s of None \<Rightarrow> True | Some u \<Rightarrow> hasPathParam u)"

definition isExplicitWait :: "scenario \<Rightarrow> bool" where
  "isExplicitWait s = waitToExecute s"

definition hasNextCallbacks :: "scenario \<Rightarrow> bool" where
  "hasNextCallbacks s = (length (nextCallbacks s) > 0)"

definition hasRequestStarted :: "scenario \<Rightarrow> bool" where
  "hasRequestStarted s = (timeRequestStarted s \<noteq> None)"

definition isReadyToExecute :: "scenario \<Rightarrow> bool" where
  "isReadyToExecute s =
     (\<not> hasExecuted s \<and> \<not> isImplicitWait s \<and> \<not> isExplicitWait s \<and> hasNextCallbacks s)"

definition executionDuration :: "scenario \<Rightarrow> int option" where
  "executionDuration s =
     (case (timeScenarioFinished s, timeScenarioExecuted s) of
        (Some f, Some e) \<Rightarrow> Some (f - e)
      | _ \<Rightarrow> None)"

subsection \<open>The platform\<close>

text \<open>
  Two things the scenario uses are defined outside the repository's sources at hand and
  are taken as parameters: the constant \<open>HttpMethodVerbAllowedValues\<close> and the \<open>URL\<close>
  constructor of the platform, \<open>new URL(input)\<close> or \<open>new URL(input, base)\<close>, which
  throws (\<open>None\<close>) on an input it cannot parse.
\<close>

record platform =
  HttpMethodVerbAllowedValues :: "string list"
  newURL :: "string \<Rightarrow> string option \<Rightarrow> url_obj option"

subsection \<open>Configuration\<close>

definition pushToLog :: "log_item \<Rightarrow> scenario \<Rightarrow> scenario" where
  "pushToLog item s = s\<lparr>log := log s @ [item]\<rparr>"

definition comment :: "string \<Rightarrow> scenario \<Rightarrow> scenario" where
  \<comment> \<open>\<open>comment(input)\<close> for an input of type string\<close>
  "comment input s = pushToLog (LogComment input) (s\<lparr>events := events s @ [Commented input]\<rparr>)"

definition result :: "log_item \<Rightarrow> scenario \<Rightarrow> scenario" where
  "result r s = pushToLog r s"

definition wait :: "bool \<Rightarrow> scenario \<Rightarrow> scenario" where
  "wait b s =
     (let s1 = (if waitToExecute s \<and> \<not> b
                then s\<lparr>waitTime := now s - timeScenarioInitialized s\<rparr> else s)
      in s1\<lparr>waitToExecute := b\<rparr>)"

definition setMethod :: "string \<Rightarrow> scenario \<Rightarrow> scenario" where
  "setMethod m s = s\<lparr>request_method := m\<rparr>"

definition set_title :: "string \<Rightarrow> scenario \<Rightarrow> scenario result" where
  "set_title newTitle s =
     (if hasExecuted s
      then Threw (Thrown ''Can not change the scenario's title after execution has started.'') s
      else Ok (s\<lparr>title := newTitle\<rparr>))"

definition set_url :: "platform \<Rightarrow> string option \<Rightarrow> scenario \<Rightarrow> scenario result" where
  "set_url P v s =
     (if hasRequestStarted s
      then Threw (Thrown ''Can not change the URL after the request has already started.'') s
      else (case v of
              None \<Rightarrow> Ok (s\<lparr>request_uri := None\<rparr>)
            | Some v0 \<Rightarrow>
                (let (s1, v1) =
                       (case methodMatch v0 of
                          None \<Rightarrow> (s, v0)
                        | Some (m1, m2) \<Rightarrow>
                            (let verb = js_toLowerCase m1
                             in (if verb \<in> set (HttpMethodVerbAllowedValues P)
                                 then setMethod verb s else s, m2)));
                     s2 = (if hasPathParam v1 then wait True s1 else s1)
                 in Ok (s2\<lparr>request_uri := Some v1\<rparr>))))"

definition open_url :: "platform \<Rightarrow> string \<Rightarrow> scenario \<Rightarrow> scenario result" where
  \<comment> \<open>\<open>open(url)\<close>; the request options of the second argument are not modelled\<close>
  "open_url P u s =
     (if hasExecuted s then Threw (Thrown ''Can call open after scenario has executed'') s
      else andThen (set_url P (Some u) s) (\<lambda>s1. Ok (s1\<lparr>isMock := False\<rparr>)))"

definition mock :: "platform \<Rightarrow> string \<Rightarrow> scenario \<Rightarrow> scenario result" where
  "mock P localPath s = andThen (set_url P (Some localPath) s) (\<lambda>s1. Ok (s1\<lparr>isMock := True\<rparr>))"

subsection \<open>Registering hooks and assertion phases\<close>

text \<open>
  The first argument of the overloaded registration methods is a message, a callback or
  an array of callbacks; the second, when present, is a callback.
\<close>

datatype 'c arg = AString string | AFunction 'c | AArray "'c list"

definition getCallbackOverload :: "'c arg \<Rightarrow> 'c option \<Rightarrow> string + 'c" where
  "getCallbackOverload a b =
     (case b of
        Some f \<Rightarrow> Inr f
      | None \<Rightarrow> (case a of AFunction f \<Rightarrow> Inr f | _ \<Rightarrow> Inl ''No callback provided.''))"

definition getMessageOverload :: "'c arg \<Rightarrow> string option" where
  "getMessageOverload a =
     (case a of
        AString m \<Rightarrow> if length (js_trim m) > 0 then Some m else None
      | _ \<Rightarrow> None)"

fun kindName :: "hook_kind \<Rightarrow> string" where
  "kindName Before = ''before''"
| "kindName After = ''after''"
| "kindName Success = ''success''"
| "kindName Failure = ''failure''"
| "kindName Finally = ''finally''"
| "kindName Pipe = ''pipe''"

fun callbacksOf :: "hook_kind \<Rightarrow> scenario \<Rightarrow> hook list" where
  "callbacksOf Before s = beforeCallbacks s"
| "callbacksOf After s = afterCallbacks s"
| "callbacksOf Success s = successCallbacks s"
| "callbacksOf Failure s = failureCallbacks s"
| "callbacksOf Finally s = finallyCallbacks s"
| "callbacksOf Pipe s = pipeCallbacks s"

fun pushHook :: "hook_kind \<Rightarrow> hook \<Rightarrow> scenario \<Rightarrow> scenario" where
  \<comment> \<open>\<open>this[callbacksName].push(...)\<close>\<close>
  "pushHook Before h s = s\<lparr>beforeCallbacks := beforeCallbacks s @ [h]\<rparr>"
| "pushHook After h s = s\<lparr>afterCallbacks := afterCallbacks s @ [h]\<rparr>"
| "pushHook Success h s = s\<lparr>successCallbacks := successCallbacks s @ [h]\<rparr>"
| "pushHook Failure h s = s\<lparr>failureCallbacks := failureCallbacks s @ [h]\<rparr>"
| "pushHook Finally h s = s\<lparr>finallyCallbacks := finallyCallbacks s @ [h]\<rparr>"
| "pushHook Pipe h s = s\<lparr>pipeCallbacks := pipeCallbacks s @ [h]\<rparr>"

definition pushCallbacks ::
  "hook_kind \<Rightarrow> callback arg \<Rightarrow> callback option \<Rightarrow> scenario \<Rightarrow> scenario result" where
  \<comment> \<open>\<open>_pushCallbacks(name, callbacksName, a, b)\<close>; the kind stands for both names\<close>
  "pushCallbacks k a b s =
     (if hasFinished s
      then Threw (Thrown (''Can not add '' @ kindName k @
                          '' callbacks after execution has finished.'')) s
      else (case a of
              AArray cbs \<Rightarrow>
                Ok (fold (\<lambda>c. pushHook k \<lparr>message = Some [], callback = c\<rparr>) cbs s)
            | _ \<Rightarrow>
                (case getCallbackOverload a b of
                   Inl e \<Rightarrow> Threw (Thrown e) s
                 | Inr c \<Rightarrow>
                     Ok (pushHook k \<lparr>message = getMessageOverload a, callback = c\<rparr> s))))"

definition success :: "callback arg \<Rightarrow> callback option \<Rightarrow> scenario \<Rightarrow> scenario result" where
  "success a b s = pushCallbacks Success a b s"


definition pipe :: "callback arg \<Rightarrow> callback option \<Rightarrow> scenario \<Rightarrow> scenario result" where
  "pipe a b s = pushCallbacks Pipe a b s"

definition before_hook :: "callback arg \<Rightarrow> callback option \<Rightarrow> scenario \<Rightarrow> scenario result" where
  \<comment> \<open>\<open>before(a, b)\<close>\<close>
  "before_hook a b s = pushCallbacks Before a b s"

definition after_hook :: "callback arg \<Rightarrow> callback option \<Rightarrow> scenario \<Rightarrow> scenario result" where
  \<comment> \<open>\<open>after(a, b)\<close>\<close>
  "after_hook a b s = pushCallbacks After a b s"

definition finally_hook :: "callback arg \<Rightarrow> callback option \<Rightarrow> scenario \<Rightarrow> scenario result" where
  \<comment> \<open>\<open>finally(a, b)\<close>\<close>
  "finally_hook a b s = pushCallbacks Finally a b s"

definition next_private :: "phase arg \<Rightarrow> phase option \<Rightarrow> bool \<Rightarrow> scenario \<Rightarrow> scenario result" where
  \<comment> \<open>\<open>_next(a, b, append)\<close>\<close>
  "next_private a b doAppend s =
     (case getCallbackOverload a b of
        Inl e \<Rightarrow> Threw (Thrown e) s
      | Inr c \<Rightarrow>
          (let m = getMessageOverload a
           in if \<not> hasFinished s
              then (if doAppend
                    then Ok (s\<lparr>nextCallbacks := nextCallbacks s @ [(m, c)]\<rparr>)
                    else Ok (s\<lparr>nextCallbacks := (m, c) # nextCallbacks s\<rparr>))
              else Threw (Thrown ''Scenario already finished.'') s))"

fun next_each :: "phase list \<Rightarrow> scenario \<Rightarrow> scenario result" where
  \<comment> \<open>\<open>a.forEach((callback) => this._next(callback, null, true))\<close>\<close>
  "next_each [] s = Ok s"
| "next_each (c # cs) s = andThen (next_private (AFunction c) None True s) (next_each cs)"

definition next_public :: "phase arg \<Rightarrow> phase option \<Rightarrow> scenario \<Rightarrow> scenario result" where
  \<comment> \<open>\<open>next(a, b)\<close>\<close>
  "next_public a b s =
     (case a of AArray cs \<Rightarrow> next_each cs s | _ \<Rightarrow> next_private a b True s)"

definition nextPrepend :: "phase arg \<Rightarrow> phase option \<Rightarrow> scenario \<Rightarrow> scenario result" where
  "nextPrepend a b s = next_private a b False s"

subsection \<open>Hook lists\<close>

definition logMessage :: "string option \<Rightarrow> scenario \<Rightarrow> scenario" where
  \<comment> \<open>\<open>m && this._pushToLog(new LogComment(m))\<close>\<close>
  "logMessage m s = (case m of None \<Rightarrow> s | Some c \<Rightarrow> if c \<noteq> [] then pushToLog (LogComment c) s else s)"

definition runCallback :: "hook_kind \<Rightarrow> callback \<Rightarrow> scenario \<Rightarrow> scenario" where
  \<comment> \<open>calling a callback and awaiting what it returns\<close>
  "runCallback k c s =
     s\<lparr>log := log s @ cb_logs c, now := now s + int (cb_time c),
       events := events s @ [HookRan k (cb_id c)]\<rparr>"

text \<open>
  \<open>_fireCallbacks\<close>: \<open>mapSeries\<close> calls the hooks one at a time, in list order, and stops
  at the first one that throws or rejects. The kind tags the trace only.
\<close>

fun fireCallbacks :: "hook_kind \<Rightarrow> hook list \<Rightarrow> scenario \<Rightarrow> scenario result" where
  "fireCallbacks k [] s = Ok s"
| "fireCallbacks k (h # hs) s =
     (let s1 = runCallback k (callback h) (logMessage (message h) s)
      in case cb_throws (callback h) of
           None \<Rightarrow> fireCallbacks k hs s1
         | Some e \<Rightarrow> Threw e s1)"

definition fired :: "hook_kind \<Rightarrow> scenario \<Rightarrow> scenario" where
  "fired k s = s\<lparr>events := events s @ [Fired k]\<rparr>"

definition markExecutionAsStarted :: "scenario \<Rightarrow> scenario" where
  "markExecutionAsStarted s = s\<lparr>timeScenarioExecuted := Some (now s)\<rparr>"

definition markRequestAsStarted :: "scenario \<Rightarrow> scenario" where
  "markRequestAsStarted s = s\<lparr>timeRequestStarted := Some (now s)\<rparr>"

definition fireBefore :: "scenario \<Rightarrow> scenario result" where
  "fireBefore s = fireCallbacks Before (beforeCallbacks s) (fired Before s)"

definition fireAfter :: "scenario \<Rightarrow> scenario result" where
  "fireAfter s =
     (let s1 = s\<lparr>timeScenarioFinished := Some (now s)\<rparr>
      in fireCallbacks After (afterCallbacks s1) (fired After s1))"

definition fireSuccess :: "scenario \<Rightarrow> scenario result" where
  "fireSuccess s = fireCallbacks Success (successCallbacks s) (fired Success s)"

definition fireFailure :: "string option \<Rightarrow> scenario \<Rightarrow> scenario result" where
  "fireFailure errorMessage s =
     andThen (fireCallbacks Failure (failureCallbacks s) (fired Failure s))
       (\<lambda>s1. Ok (logMessage errorMessage s1))"

definition fireFinally :: "scenario \<Rightarrow> scenario result" where
  "fireFinally s = fireCallbacks Finally (finallyCallbacks s) (fired Finally s)"

subsection \<open>Skipping, cancelling and completing\<close>

definition skipComment :: "string option \<Rightarrow> string" where
  \<comment> \<open>the template \<open>Skipped${message ? ": " + message : ""}\<close>\<close>
  "skipComment msg =
     ''Skipped'' @ (case msg of None \<Rightarrow> [] | Some m \<Rightarrow> if m \<noteq> [] then '': '' @ m else [])"

definition skip :: "string option \<Rightarrow> scenario \<Rightarrow> scenario result" where
  "skip msg s =
     (if hasExecuted s
      then Threw (Thrown ''Can't skip Scenario since it already started executing.'') s
      else andThen (fireBefore (markExecutionAsStarted s))
             (\<lambda>s1. andThen (fireAfter (comment (skipComment msg) s1)) fireFinally))"

definition cancel :: "scenario \<Rightarrow> scenario result" where
  "cancel s =
     (if hasExecuted s
      then Threw (Thrown ''Can't cancel Scenario since it already started executing.'') s
      else andThen (fireBefore (markExecutionAsStarted s))
             (\<lambda>s1. andThen (fireAfter s1) fireFinally))"

definition showDuration :: "int option \<Rightarrow> string" where
  \<comment> \<open>\<open>${this.executionDuration}\<close> of a \<open>number | null\<close>\<close>
  "showDuration d = (case d of None \<Rightarrow> ''null'' | Some n \<Rightarrow> show_int n)"

definition orElse :: "string option \<Rightarrow> string option \<Rightarrow> string option" where
  \<comment> \<open>\<open>a || b\<close>\<close>
  "orElse a b = (if truthy a then a else b)"

text \<open>
  \<open>_markScenarioCompleted(errorMessage = null, errorDetails?)\<close>. \<open>errorMessage\<close> is
  \<open>None\<close> for \<open>null\<close>, which is also what the default parameter makes of \<open>undefined\<close>.
\<close>

definition markScenarioCompleted ::
  "string option \<Rightarrow> string option \<Rightarrow> scenario \<Rightarrow> scenario result" where
  "markScenarioCompleted errorMessage errorDetails s =
     (if \<not> hasFinished s
      then andThen (fireAfter s)
             (\<lambda>s1. let s2 = comment (''Took '' @ showDuration (executionDuration s1) @ ''ms'') s1
                   in andThen
                        (case errorMessage of
                           None \<Rightarrow> if hasPassed s2 then fireSuccess s2 else fireFailure None s2
                         | Some m \<Rightarrow>
                             fireFailure (orElse errorDetails (Some m))
                               (result (AssertionFail m errorDetails) s2))
                        fireFinally)
      else Ok s)"

subsection \<open>Executing\<close>

definition buildUrl :: "platform \<Rightarrow> scenario \<Rightarrow> url_obj option" where
  "buildUrl P s =
     (let path = (case url s of None \<Rightarrow> ''/'' | Some u \<Rightarrow> if u = [] then ''/'' else u)
      in case suite_baseUrl s of
           None \<Rightarrow> newURL P path None
         | Some base \<Rightarrow>
             if startsWith ''http://'' path \<or> startsWith ''https://'' path
                \<or> startsWith ''data:'' path
             then newURL P path None
             else if startsWith ''//'' path
             then newURL P (protocol base @ ''//'' @ path) None
             else if startsWith ''/'' path
             then newURL P (protocol base @ ''//'' @ host base @ path) None
             else newURL P path (Some (href base)))"

definition dispatch :: "adapter \<Rightarrow> scenario \<Rightarrow> scenario" where
  \<comment> \<open>handing the request to a fetch adapter\<close>
  "dispatch a s = s\<lparr>events := events s @ [Dispatched a (request_uri s)]\<rparr>"

definition executeRequest :: "platform \<Rightarrow> scenario \<Rightarrow> scenario result" where
  "executeRequest P s =
     (if url s = None then Threw (Thrown ''Can not execute request with null URL.'') s
      else if hasRequestStarted s then Threw (Thrown ''Request has already started.'') s
      else (case buildUrl P s of
              None \<Rightarrow> Threw (Thrown ''Invalid URL'') s
            | Some u \<Rightarrow>
                andThen (set_url P (Some (href u)) s)
                  (\<lambda>s1. let s2 = markRequestAsStarted s1;
                            s3 = s2\<lparr>finalUrl := request_uri s2\<rparr>
                        in Ok (dispatch
                                 (if responseType s3 \<in> {''extjs'', ''browser''}
                                  then BrowserAdapter else DefaultAdapter) s3))))"

definition executeMock :: "scenario \<Rightarrow> scenario result" where
  "executeMock s =
     (if url s = None then Threw (Thrown ''Can not execute request with null URL.'') s
      else if hasRequestStarted s then Threw (Thrown ''Request has already started.'') s
      else Ok (dispatch MockAdapter (markRequestAsStarted s)))"

definition orNull :: "string option \<Rightarrow> string option" where
  \<comment> \<open>\<open>x || null\<close> for \<open>x\<close> a string or \<open>undefined\<close>\<close>
  "orNull x = (case x of None \<Rightarrow> None | Some u \<Rightarrow> if u = [] then None else Some u)"

text \<open>
  The path parameters are the entries of the object in the order of \<open>Object.keys\<close>, each
  value already converted by \<open>String\<close>. Every key assigns to \<open>this.url\<close>, so goes through
  the setter.
\<close>

fun applyPathParams :: "platform \<Rightarrow> (string \<times> string) list \<Rightarrow> scenario \<Rightarrow> scenario result" where
  "applyPathParams P [] s = Ok s"
| "applyPathParams P ((key, v) # ps) s =
     andThen
       (set_url P (orNull (map_option (\<lambda>u. js_replace u (''{'' @ key @ ''}'') v) (url s))) s)
       (applyPathParams P ps)"

definition execute ::
  "platform \<Rightarrow> (string \<times> string) list option \<Rightarrow> scenario \<Rightarrow> scenario result" where
  "execute P pathParams s =
     (if hasExecuted s
      then Threw (Thrown ''Scenario has already started executing. Can not call execute again.'') s
      else andThen (case pathParams of None \<Rightarrow> Ok s | Some ps \<Rightarrow> applyPathParams P ps s)
             (\<lambda>s1. let s2 = wait False s1
                   in if isReadyToExecute s2
                      then andThen (fireBefore (markExecutionAsStarted s2))
                             (\<lambda>s3. let s4 = pushToLog (LogScenarioHeading (title s3)) s3;
                                       s5 = (if waitTime s4 > 0
                                             then comment (''Waited '' @ show_int (waitTime s4) @ ''ms'') s4
                                             else s4)
                                   in if isMock s5 then executeMock s5 else executeRequest P s5)
                      else Ok s2))"

subsection \<open>The response and the assertion phases\<close>

definition pipeResponses :: "scenario \<Rightarrow> scenario result" where
  "pipeResponses s = fireCallbacks Pipe (pipeCallbacks s) s"

text \<open>
  \<open>Promise.all\<close> rejects with the earliest rejection among its promises (the first in
  array order among equals), is fulfilled when the last of them is, and otherwise stays
  pending.
\<close>

fun earliestRejection :: "settle list \<Rightarrow> (nat \<times> thrown) option" where
  "earliestRejection [] = None"
| "earliestRejection (Rejected t e # ps) =
     (case earliestRejection ps of
        None \<Rightarrow> Some (t, e)
      | Some (t', e') \<Rightarrow> if t' < t then Some (t', e') else Some (t, e))"
| "earliestRejection (p # ps) = earliestRejection ps"

fun allFulfilled :: "settle list \<Rightarrow> nat option" where
  \<comment> \<open>the time at which the last one is fulfilled, when all are\<close>
  "allFulfilled [] = Some 0"
| "allFulfilled (Fulfilled t # ps) = map_option (max t) (allFulfilled ps)"
| "allFulfilled (p # ps) = None"

definition promiseAll :: "settle list \<Rightarrow> settle" where
  "promiseAll ps =
     (case earliestRejection ps of
        Some (t, e) \<Rightarrow> Rejected t e
      | None \<Rightarrow> (case allFulfilled ps of Some t \<Rightarrow> Fulfilled t | None \<Rightarrow> Pending))"

text \<open>
  \<open>.timeout(ms)\<close>: a promise that has not settled before \<open>ms\<close> milliseconds have passed is
  rejected with a timeout error at that time.
\<close>

datatype settled = Fulfils nat | Rejects nat thrown

fun promiseTimeout :: "nat \<Rightarrow> settle \<Rightarrow> settled" where
  "promiseTimeout ms (Fulfilled t) =
     (if t < ms then Fulfils t else Rejects ms (Thrown ''operation timed out''))"
| "promiseTimeout ms (Rejected t e) =
     (if t < ms then Rejects t e else Rejects ms (Thrown ''operation timed out''))"
| "promiseTimeout ms Pending = Rejects ms (Thrown ''operation timed out'')"

text \<open>
  The \<open>mapSeries\<close> over \<open>_nextCallbacks\<close> in \<open>_processResponse\<close>. A phase is started only
  when the promise of the phase before it has been fulfilled; the first throw, rejection
  or timeout ends the series with that error.
\<close>

fun runPhases :: "(string option \<times> phase) list \<Rightarrow> scenario \<Rightarrow> scenario result" where
  "runPhases [] s = Ok s"
| "runPhases ((m, p) # ps) s =
     (let s1 = (case m of None \<Rightarrow> s | Some c \<Rightarrow> pushToLog (LogScenarioSubHeading c) s);
          s2 = s1\<lparr>events := events s1 @ [PhaseStarted (ph_id p) (now s1)],
                  log := log s1 @ ph_logs p\<rparr>
      in case ph_throws p of
           Some e \<Rightarrow> Threw e s2
         | None \<Rightarrow>
             (let s3 = fold (\<lambda>n. result (AssertionFailWarning (''Incomplete assertion: '' @ n)))
                         (ph_incomplete p) s2
              in case promiseTimeout 30000
                        (promiseAll [ph_return p, ph_assertions p, ph_subscenarios p]) of
                   Fulfils t \<Rightarrow> runPhases ps (s3\<lparr>now := now s3 + int t\<rparr>)
                 | Rejects t e \<Rightarrow> Threw e (s3\<lparr>now := now s3 + int t\<rparr>)))"

fun errorMessageOf :: "thrown \<Rightarrow> string option" where
  \<comment> \<open>what \<open>_markScenarioCompleted(err)\<close> binds \<open>errorMessage\<close> to\<close>
  "errorMessageOf ThrownUndefined = None"
| "errorMessageOf ThrownNull = None"
| "errorMessageOf (Thrown m) = Some m"

definition showUrl :: "string option \<Rightarrow> string" where
  "showUrl u = (case u of None \<Rightarrow> ''null'' | Some v \<Rightarrow> v)"

text \<open>
  \<open>_processResponse\<close>, with the series of phases and its \<open>then\<close> and \<open>catch\<close> handlers run
  to their end. A rejection of the completion routine itself is reported as \<open>Threw\<close>.
\<close>

definition processResponse :: "scenario \<Rightarrow> scenario result" where
  "processResponse s =
     andThen (pipeResponses s)
       (\<lambda>s1. let s2 = s1\<lparr>timeRequestLoaded := Some (now s1)\<rparr>;
                 s3 = result (AssertionPass (''Loaded '' @ responseTypeName s2 @ '' '' @
                                             showUrl (url s2))) s2
             in case runPhases (nextCallbacks s3) s3 of
                  Ok s4 \<Rightarrow> markScenarioCompleted None None s4
                | Threw e s4 \<Rightarrow> markScenarioCompleted (errorMessageOf e) None s4)"

definition requestFailed :: "string \<Rightarrow> scenario \<Rightarrow> scenario result" where
  \<comment> \<open>the \<open>catch\<close> handler of the fetch\<close>
  "requestFailed err s =
     markScenarioCompleted (Some (''Failed to load '' @ showUrl (request_uri s))) (Some err) s"

subsection \<open>Construction\<close>

text \<open>
  The constructor and the field initialisers: a scenario of the suite with base URL
  \<open>base\<close>, created at time \<open>clock\<close>, whose response object is named \<open>typeName\<close>.
\<close>

definition newScenario :: "url_obj option \<Rightarrow> string \<Rightarrow> string \<Rightarrow> int \<Rightarrow> scenario" where
  "newScenario base t typeName clock =
     \<lparr>title = t, log = [], nextCallbacks = [], beforeCallbacks = [], afterCallbacks = [],
      finallyCallbacks = [], failureCallbacks = [], successCallbacks = [],
      pipeCallbacks = [], timeScenarioInitialized = clock, timeScenarioExecuted = None,
      timeRequestStarted = None, timeRequestLoaded = None, timeScenarioFinished = None,
      responseType = ''html'', responseTypeName = typeName, finalUrl = None,
      waitToExecute = False, waitTime = 0, isMock = False, request_uri = None,
      request_method = ''get'', suite_baseUrl = base, now = clock, events = []\<rparr>"

subsection \<open>What a hook list does\<close>

text \<open>
  The hooks of a list that are called when the list is fired (those up to the first one
  that rejects), and what calling them appends to the log and to the trace.
\<close>

definition allResolve :: "hook list \<Rightarrow> bool" where
  "allResolve hs = list_all (\<lambda>h. cb_throws (callback h) = None) hs"

fun upToThrow :: "hook list \<Rightarrow> hook list" where
  "upToThrow [] = []"
| "upToThrow (h # hs) = (if cb_throws (callback h) = None then h # upToThrow hs else [h])"

definition messageLog :: "string option \<Rightarrow> log_item list" where
  "messageLog m = (case m of None \<Rightarrow> [] | Some c \<Rightarrow> if c \<noteq> [] then [LogComment c] else [])"

definition hookLogs :: "hook list \<Rightarrow> log_item list" where
  "hookLogs hs = concat (map (\<lambda>h. messageLog (message h) @ cb_logs (callback h)) hs)"

definition hookRuns :: "hook_kind \<Rightarrow> hook list \<Rightarrow> event list" where
  "hookRuns k hs = map (\<lambda>h. HookRan k (cb_id (callback h))) hs"

definition hookTime :: "hook list \<Rightarrow> nat" where
  "hookTime hs = sum_list (map (\<lambda>h. cb_time (callback h)) hs)"

text \<open>Reading the trace and an outcome.\<close>

fun isCommented :: "event \<Rightarrow> bool" where
  "isCommented (Commented m) = True"
| "isCommented e = False"

fun isRequestOrPhase :: "event \<Rightarrow> bool" where
  "isRequestOrPhase (Dispatched a u) = True"
| "isRequestOrPhase (PhaseStarted i t) = True"
| "isRequestOrPhase e = False"

fun threw :: "'a result \<Rightarrow> bool" where
  "threw (Threw e s) = True"
| "threw (Ok s) = False"

subsection \<open>What a series of phases does\<close>

text \<open>
  For one phase: the error that ends the series at this phase, if any (the value the
  callback throws, the rejection of one of its three promises, or the timeout), and the
  time from its start until the series moves on. For a list of phases: the phases that
  are started (those up to the first one with an error), the times at which they start,
  and the error of the series.
\<close>

definition phaseError :: "phase \<Rightarrow> thrown option" where
  "phaseError p =
     (case ph_throws p of
        Some e \<Rightarrow> Some e
      | None \<Rightarrow>
          (case promiseTimeout 30000
                  (promiseAll [ph_return p, ph_assertions p, ph_subscenarios p]) of
             Fulfils t \<Rightarrow> None
           | Rejects t e \<Rightarrow> Some e))"

definition phaseWait :: "phase \<Rightarrow> nat" where
  "phaseWait p =
     (case ph_throws p of
        Some e \<Rightarrow> 0
      | None \<Rightarrow>
          (case promiseTimeout 30000
                  (promiseAll [ph_return p, ph_assertions p, ph_subscenarios p]) of
             Fulfils t \<Rightarrow> t
           | Rejects t e \<Rightarrow> t))"


fun phaseStarts :: "int \<Rightarrow> phase list \<Rightarrow> event list" where
  "phaseStarts t [] = []"
| "phaseStarts t (p # ps) = PhaseStarted (ph_id p) t # phaseStarts (t + int (phaseWait p)) ps"

fun seriesError :: "phase list \<Rightarrow> thrown option" where
  "seriesError [] = None"
| "seriesError (p # ps) = (case phaseError p of None \<Rightarrow> seriesError ps | Some e \<Rightarrow> Some e)"

subsection \<open>The older build\<close>

text \<open>
  \<open>dist/suite.js\<close> (and \<open>index.ts\<close>) hold an earlier \<open>Suite.buildUrl(path)\<close>, from the
  time the base URL was a string and the suite built the URL. \<open>scenario.ts\<close> does not
  call it: its \<open>buildUrl\<close> reads \<open>suite.baseUrl\<close> as a \<open>URL\<close> object.
\<close>

definition suite_buildUrl :: "string option \<Rightarrow> string \<Rightarrow> string" where
  \<comment> \<open>\<open>(!!this.baseUrl) ? (this.baseUrl + path) : path\<close>\<close>
  "suite_buildUrl baseUrl path =
     (case baseUrl of None \<Rightarrow> path | Some b \<Rightarrow> if b \<noteq> [] then b @ path else path)"

section \<open>The value wrapper\<close>

text \<open>
  The class \<open>Value\<close> wraps underlying data with a name. The data modelled here are the
  primitive values (with integral numbers) and arrays of primitive values. An array is
  an object with an identity: two values may hold the same array, and a method that
  changes the array changes it for both. So the arrays live in a heap and a value holds a
  reference; the \<open>Value\<close> instances live there too, each named by its index, so that
  a new instance can be told from the one it was derived from.
\<close>

datatype prim = PUndefined | PNull | PBool bool | PNum int | PStr string

datatype jsval = Prim prim | ArrayRef nat

text \<open>
  The fields \<open>_input\<close> and \<open>_name\<close>. The context is handed on unchanged by every
  projection, and the parent, the highlight and the source code keep their defaults
  there; they are left out.
\<close>

record value_obj =
  v_input :: jsval
  v_name :: "string option"

record heap =
  arrays :: "prim list list"
  instances :: "value_obj list"

text \<open>The underlying data as a reader of \<open>value.$\<close> sees them, arrays read through.\<close>

datatype data = Plain prim | Elements "prim list"

definition getInstance :: "heap \<Rightarrow> nat \<Rightarrow> value_obj option" where
  "getInstance h i = (if i < length (instances h) then Some (instances h ! i) else None)"

definition getArray :: "heap \<Rightarrow> nat \<Rightarrow> prim list option" where
  "getArray h a = (if a < length (arrays h) then Some (arrays h ! a) else None)"

definition readData :: "heap \<Rightarrow> jsval \<Rightarrow> data option" where
  "readData h x = (case x of Prim p \<Rightarrow> Some (Plain p) | ArrayRef a \<Rightarrow> map_option Elements (getArray h a))"

definition underlying :: "heap \<Rightarrow> nat \<Rightarrow> data option" where
  \<comment> \<open>the data that \<open>$\<close> of the instance \<open>i\<close> gives\<close>
  "underlying h i = (case getInstance h i of None \<Rightarrow> None | Some v \<Rightarrow> readData h (v_input v))"

definition newArray :: "prim list \<Rightarrow> heap \<Rightarrow> nat \<times> heap" where
  \<comment> \<open>an array literal or any other fresh array\<close>
  "newArray xs h = (length (arrays h), h\<lparr>arrays := arrays h @ [xs]\<rparr>)"

definition newValue :: "jsval \<Rightarrow> string \<Rightarrow> heap \<Rightarrow> nat \<times> heap" where
  \<comment> \<open>\<open>new Value(input, context, name)\<close>, which sets \<open>_name = name || null\<close>\<close>
  "newValue input name h =
     (length (instances h),
      h\<lparr>instances := instances h @
            [\<lparr>v_input = input, v_name = (if name \<noteq> [] then Some name else None)\<rparr>]\<rparr>)"

definition getName :: "value_obj \<Rightarrow> string" where
  \<comment> \<open>the getter \<open>name\<close>: \<open>this._name || "it"\<close>\<close>
  "getName v = (case v_name v of None \<Rightarrow> ''it'' | Some n \<Rightarrow> if n \<noteq> [] then n else ''it'')"

definition rawName :: "value_obj \<Rightarrow> string" where
  \<comment> \<open>\<open>${this._name}\<close> in a template\<close>
  "rawName v = (case v_name v of None \<Rightarrow> ''null'' | Some n \<Rightarrow> n)"

subsection \<open>Built-in conversions\<close>

fun js_String :: "prim \<Rightarrow> string" where
  "js_String PUndefined = ''undefined''"
| "js_String PNull = ''null''"
| "js_String (PBool b) = (if b then ''true'' else ''false'')"
| "js_String (PNum n) = show_int n"
| "js_String (PStr s) = s"

fun elementString :: "prim \<Rightarrow> string" where
  \<comment> \<open>how \<open>Array.prototype.join\<close> renders an element\<close>
  "elementString PUndefined = []"
| "elementString PNull = []"
| "elementString p = js_String p"

fun js_join :: "string \<Rightarrow> prim list \<Rightarrow> string" where
  "js_join sep [] = []"
| "js_join sep [x] = elementString x"
| "js_join sep (x # y # ys) = elementString x @ sep @ js_join sep (y # ys)"

text \<open>
  \<open>s.split(sep)\<close> for a string separator. The pieces between the occurrences of a
  non-empty separator, found from the left; the code units of \<open>s\<close> for the empty one.
\<close>

function splitOn :: "string \<Rightarrow> string \<Rightarrow> string \<Rightarrow> string list" where
  "splitOn sep piece [] = [rev piece]"
| "splitOn sep piece (c # cs) =
     (if sep \<noteq> [] \<and> take (length sep) (c # cs) = sep
      then rev piece # splitOn sep [] (drop (length sep) (c # cs))
      else splitOn sep (c # piece) cs)"
  by pat_completeness auto
termination
  by (relation "measure (\<lambda>(sep, piece, s). length s)") auto

definition js_split :: "string \<Rightarrow> string \<Rightarrow> nat option \<Rightarrow> string list" where
  \<comment> \<open>the limit, when given, is a number of pieces below \<open>2^32\<close>\<close>
  "js_split s sep limit =
     (let pieces = (if sep = [] then map (\<lambda>c. [c]) s else splitOn sep [] s)
      in case limit of None \<Rightarrow> pieces | Some n \<Rightarrow> take n pieces)"

fun uniq :: "'a list \<Rightarrow> 'a list" where
  \<comment> \<open>\<open>[...new Set(xs)]\<close>: each element once, in the order of first occurrence\<close>
  "uniq [] = []"
| "uniq (x # xs) = x # uniq (filter (\<lambda>y. y \<noteq> x) xs)"

text \<open>
  \<open>Array.prototype.sort(compare)\<close>: the \<open>undefined\<close> elements go to the end without
  being compared; the others are ordered by the comparator, equal ones in their former
  order (the sort is stable). The model is an insertion sort, which gives that order for
  every comparator that is a consistent ordering.
\<close>

fun insertBy :: "('a \<Rightarrow> 'a \<Rightarrow> int) \<Rightarrow> 'a \<Rightarrow> 'a list \<Rightarrow> 'a list" where
  "insertBy cmp x [] = [x]"
| "insertBy cmp x (y # ys) = (if cmp x y \<le> 0 then x # y # ys else y # insertBy cmp x ys)"

definition sortBy :: "('a \<Rightarrow> 'a \<Rightarrow> int) \<Rightarrow> 'a list \<Rightarrow> 'a list" where
  "sortBy cmp xs = foldr (insertBy cmp) xs []"

definition js_sort :: "(prim \<Rightarrow> prim \<Rightarrow> int) \<Rightarrow> prim list \<Rightarrow> prim list" where
  "js_sort cmp xs =
     sortBy cmp (filter (\<lambda>x. x \<noteq> PUndefined) xs) @ filter (\<lambda>x. x = PUndefined) xs"

subsection \<open>What the class takes from elsewhere\<close>

text \<open>
  The helpers \<open>firstIn\<close>, \<open>lastIn\<close>, \<open>nthIn\<close> and \<open>toOrdinal\<close> of \<open>util\<close> are not among the
  sources at hand, and \<open>Intl.Collator\<close> belongs to the platform. They are parameters:
  the three selectors as functions of the data they are given, and the comparison of the
  collator \<open>new Intl.Collator("en", {numeric: true, sensitivity: "base"})\<close> as a
  function of two elements.
\<close>

record util =
  firstIn :: "heap \<Rightarrow> jsval \<Rightarrow> jsval"
  lastIn :: "heap \<Rightarrow> jsval \<Rightarrow> jsval"
  nthIn :: "heap \<Rightarrow> jsval \<Rightarrow> int \<Rightarrow> jsval"
  toOrdinal :: "int \<Rightarrow> string"
  collatorCompare :: "prim \<Rightarrow> prim \<Rightarrow> int"

subsection \<open>Conversions of a value\<close>

definition isArray :: "value_obj \<Rightarrow> bool" where
  \<comment> \<open>\<open>this.toType() == "array"\<close>\<close>
  "isArray v = (case v_input v of ArrayRef a \<Rightarrow> True | Prim p \<Rightarrow> False)"

definition toArray :: "value_obj \<Rightarrow> heap \<Rightarrow> nat \<times> heap" where
  \<comment> \<open>\<open>this.isArray() ? this._input : [this._input]\<close>: the array itself, or a fresh one\<close>
  "toArray v h = (case v_input v of ArrayRef a \<Rightarrow> (a, h) | Prim p \<Rightarrow> newArray [p] h)"

definition toString :: "value_obj \<Rightarrow> heap \<Rightarrow> string option" where
  \<comment> \<open>for the data modelled, \<open>toString()\<close> ends in \<open>String(this._input)\<close>\<close>
  "toString v h =
     (case v_input v of
        Prim p \<Rightarrow> Some (js_String p)
      | ArrayRef a \<Rightarrow> map_option (js_join '','') (getArray h a))"

subsection \<open>The projections\<close>

text \<open>
  Each projection takes the index of \<open>this\<close> and the heap, and gives the index of the
  value it returns and the heap after the call; \<open>None\<close> when \<open>this\<close> is not an instance
  of the heap or holds a reference to no array.
\<close>

definition mapString :: "(string \<Rightarrow> string) \<Rightarrow> jsval \<Rightarrow> jsval" where
  \<comment> \<open>\<open>typeof thisValue === "string" ? f(thisValue) : thisValue\<close>\<close>
  "mapString f x = (case x of Prim (PStr s) \<Rightarrow> Prim (PStr (f s)) | _ \<Rightarrow> x)"

definition trim :: "nat \<Rightarrow> heap \<Rightarrow> (nat \<times> heap) option" where
  "trim i h =
     (case getInstance h i of
        None \<Rightarrow> None
      | Some v \<Rightarrow> Some (newValue (mapString js_trim (v_input v)) (''Trim of '' @ rawName v) h))"

definition uppercase :: "nat \<Rightarrow> heap \<Rightarrow> (nat \<times> heap) option" where
  "uppercase i h =
     (case getInstance h i of
        None \<Rightarrow> None
      | Some v \<Rightarrow>
          Some (newValue (mapString js_toUpperCase (v_input v)) (''Uppercase of '' @ rawName v) h))"

definition lowercase :: "nat \<Rightarrow> heap \<Rightarrow> (nat \<times> heap) option" where
  "lowercase i h =
     (case getInstance h i of
        None \<Rightarrow> None
      | Some v \<Rightarrow>
          Some (newValue (mapString js_toLowerCase (v_input v)) (''Lowercase of '' @ rawName v) h))"

definition first :: "util \<Rightarrow> nat \<Rightarrow> heap \<Rightarrow> (nat \<times> heap) option" where
  "first U i h =
     (case getInstance h i of
        None \<Rightarrow> None
      | Some v \<Rightarrow> Some (newValue (firstIn U h (v_input v)) (''First in '' @ rawName v) h))"

definition last_value :: "util \<Rightarrow> nat \<Rightarrow> heap \<Rightarrow> (nat \<times> heap) option" where
  \<comment> \<open>the getter \<open>last\<close>\<close>
  "last_value U i h =
     (case getInstance h i of
        None \<Rightarrow> None
      | Some v \<Rightarrow> Some (newValue (lastIn U h (v_input v)) (''Last in '' @ rawName v) h))"

definition nth_value :: "util \<Rightarrow> int \<Rightarrow> nat \<Rightarrow> heap \<Rightarrow> (nat \<times> heap) option" where
  \<comment> \<open>\<open>nth(index)\<close>\<close>
  "nth_value U index i h =
     (case getInstance h i of
        None \<Rightarrow> None
      | Some v \<Rightarrow>
          Some (newValue (nthIn U h (v_input v) index)
                  (toOrdinal U (index + 1) @ '' value in '' @ getName v) h))"

definition split_value :: "string \<Rightarrow> nat option \<Rightarrow> nat \<Rightarrow> heap \<Rightarrow> (nat \<times> heap) option" where
  \<comment> \<open>\<open>split(by, limit)\<close> for a string separator\<close>
  "split_value by limit i h =
     (case getInstance h i of
        None \<Rightarrow> None
      | Some v \<Rightarrow>
          (case toString v h of
             None \<Rightarrow> None
           | Some s \<Rightarrow>
               (let (a, h1) = newArray (map PStr (js_split s by limit)) h
                in Some (newValue (ArrayRef a) (getName v) h1))))"

definition join_value :: "string \<Rightarrow> nat \<Rightarrow> heap \<Rightarrow> (nat \<times> heap) option" where
  \<comment> \<open>\<open>join(by)\<close>\<close>
  "join_value by i h =
     (case getInstance h i of
        None \<Rightarrow> None
      | Some v \<Rightarrow>
          (let (a, h1) = toArray v h
           in case getArray h1 a of
                None \<Rightarrow> None
              | Some xs \<Rightarrow> Some (newValue (Prim (PStr (js_join by xs))) (getName v) h1)))"

definition unique :: "nat \<Rightarrow> heap \<Rightarrow> (nat \<times> heap) option" where
  "unique i h =
     (case getInstance h i of
        None \<Rightarrow> None
      | Some v \<Rightarrow>
          (let (a, h1) = toArray v h
           in case getArray h1 a of
                None \<Rightarrow> None
              | Some xs \<Rightarrow>
                  (let (a2, h2) = newArray (uniq xs) h1
                   in Some (newValue (ArrayRef a2) (getName v) h2))))"

definition sortInPlace :: "(prim \<Rightarrow> prim \<Rightarrow> int) \<Rightarrow> nat \<Rightarrow> heap \<Rightarrow> heap option" where
  \<comment> \<open>\<open>arr.sort(compare)\<close>: the array itself is reordered\<close>
  "sortInPlace cmp a h =
     (case getArray h a of
        None \<Rightarrow> None
      | Some xs \<Rightarrow> Some (h\<lparr>arrays := (arrays h)[a := js_sort cmp xs]\<rparr>))"

definition asc :: "util \<Rightarrow> nat \<Rightarrow> heap \<Rightarrow> (nat \<times> heap) option" where
  \<comment> \<open>\<open>asc()\<close>, without a key\<close>
  "asc U i h =
     (case getInstance h i of
        None \<Rightarrow> None
      | Some v \<Rightarrow>
          (let (a, h1) = toArray v h
           in case sortInPlace (collatorCompare U) a h1 of
                None \<Rightarrow> None
              | Some h2 \<Rightarrow> Some (newValue (ArrayRef a) (getName v) h2)))"

definition desc :: "util \<Rightarrow> nat \<Rightarrow> heap \<Rightarrow> (nat \<times> heap) option" where
  \<comment> \<open>\<open>desc()\<close>, without a key\<close>
  "desc U i h =
     (case getInstance h i of
        None \<Rightarrow> None
      | Some v \<Rightarrow>
          (let (a, h1) = toArray v h
           in case sortInPlace (\<lambda>x y. collatorCompare U x y * (- 1)) a h1 of
                None \<Rightarrow> None
              | Some h2 \<Rightarrow> Some (newValue (ArrayRef a) (getName v) h2)))"

text \<open>The projections as one family, to speak of every one of them.\<close>

datatype projection =
    Trim | Uppercase | Lowercase | First | Last | Nth int
  | Split string "nat option" | Join string | Unique | Asc | Desc

fun project :: "util \<Rightarrow> projection \<Rightarrow> nat \<Rightarrow> heap \<Rightarrow> (nat \<times> heap) option" where
  "project U Trim = trim"
| "project U Uppercase = uppercase"
| "project U Lowercase = lowercase"
| "project U First = first U"
| "project U Last = last_value U"
| "project U (Nth n) = nth_value U n"
| "project U (Split by limit) = split_value by limit"
| "project U (Join by) = join_value by"
| "project U Unique = unique"
| "project U Asc = asc U"
| "project U Desc = desc U"

text \<open>
  The name and the data of the value a projection returns, given the instance it is
  called on and the data that instance holds.
\<close>

fun projectedName :: "util \<Rightarrow> projection \<Rightarrow> value_obj \<Rightarrow> string" where
  "projectedName U Trim v = ''Trim of '' @ rawName v"
| "projectedName U Uppercase v = ''Uppercase of '' @ rawName v"
| "projectedName U Lowercase v = ''Lowercase of '' @ rawName v"
| "projectedName U First v = ''First in '' @ rawName v"
| "projectedName U Last v = ''Last in '' @ rawName v"
| "projectedName U (Nth n) v = toOrdinal U (n + 1) @ '' value in '' @ getName v"
| "projectedName U p v = getName v"

definition mapPlainString :: "(string \<Rightarrow> string) \<Rightarrow> data \<Rightarrow> data" where
  "mapPlainString f d = (case d of Plain (PStr s) \<Rightarrow> Plain (PStr (f s)) | _ \<Rightarrow> d)"

fun dataString :: "data \<Rightarrow> string" where
  \<comment> \<open>\<open>String\<close> of the data\<close>
  "dataString (Plain p) = js_String p"
| "dataString (Elements xs) = js_join '','' xs"

fun dataElements :: "data \<Rightarrow> prim list" where
  \<comment> \<open>the data as an array: itself, or the one-element array of it\<close>
  "dataElements (Plain p) = [p]"
| "dataElements (Elements xs) = xs"

fun projectedData :: "util \<Rightarrow> heap \<Rightarrow> projection \<Rightarrow> jsval \<Rightarrow> data \<Rightarrow> data option" where
  "projectedData U h Trim x d = Some (mapPlainString js_trim d)"
| "projectedData U h Uppercase x d = Some (mapPlainString js_toUpperCase d)"
| "projectedData U h Lowercase x d = Some (mapPlainString js_toLowerCase d)"
| "projectedData U h First x d = readData h (firstIn U h x)"
| "projectedData U h Last x d = readData h (lastIn U h x)"
| "projectedData U h (Nth n) x d = readData h (nthIn U h x n)"
| "projectedData U h (Split by limit) x d = Some (Elements (map PStr (js_split (dataString d) by limit)))"
| "projectedData U h (Join by) x d = Some (Plain (PStr (js_join by (dataElements d))))"
| "projectedData U h Unique x d = Some (Elements (uniq (dataElements d)))"
| "projectedData U h Asc x d = Some (Elements (js_sort (collatorCompare U) (dataElements d)))"
| "projectedData U h Desc x d =
     Some (Elements (js_sort (\<lambda>a b. collatorCompare U a b * (- 1)) (dataElements d)))"

fun sortsInPlace :: "projection \<Rightarrow> bool" where
  "sortsInPlace Asc = True"
| "sortsInPlace Desc = True"
| "sortsInPlace p = False"


text \<open>Reading what a projection returned.\<close>

definition returnedName :: "(nat \<times> heap) option \<Rightarrow> string option" where
  \<comment> \<open>the \<open>_name\<close> of the value returned\<close>
  "returnedName r =
     (case r of
        None \<Rightarrow> None
      | Some (j, h') \<Rightarrow> (case getInstance h' j of None \<Rightarrow> None | Some w \<Rightarrow> v_name w))"

definition returnedData :: "(nat \<times> heap) option \<Rightarrow> data option" where
  \<comment> \<open>the data of the value returned\<close>
  "returnedData r = (case r of None \<Rightarrow> None | Some (j, h') \<Rightarrow> underlying h' j)"

definition dataAfter :: "nat \<Rightarrow> (nat \<times> heap) option \<Rightarrow> data option" where
  \<comment> \<open>the data of the instance \<open>i\<close> once the projection has returned\<close>
  "dataAfter i r = (case r of None \<Rightarrow> None | Some (j, h') \<Rightarrow> underlying h' i)"

section \<open>Example scenarios\<close>

text \<open>
  Concrete inputs at which the theorems below are instantiated: a platform whose \<open>URL\<close>
  constructor accepts every input, a phase that settles after seven milliseconds, hooks
  that resolve and one that rejects, and scenarios built from them through the
  registration methods.
\<close>

definition examplePlatform :: platform where
  "examplePlatform =
     \<lparr>HttpMethodVerbAllowedValues = [''get'', ''head'', ''delete'', ''patch'', ''post'', ''put'', ''options''],
      newURL = (\<lambda>input base.
                  Some \<lparr>protocol = ''https:'', host = ''example.com'',
                        href = (case base of None \<Rightarrow> input | Some b \<Rightarrow> b @ input)\<rparr>)\<rparr>"

definition examplePhase :: phase where
  "examplePhase =
     \<lparr>ph_id = 1, ph_logs = [AssertionPass ''status is 200''], ph_throws = None,
      ph_incomplete = [], ph_return = Fulfilled 5, ph_assertions = Fulfilled 7,
      ph_subscenarios = Fulfilled 0\<rparr>"

definition exampleHook :: "nat \<Rightarrow> callback" where
  "exampleHook n = \<lparr>cb_id = n, cb_logs = [], cb_time = 3, cb_throws = None\<rparr>"

definition rejectingHook :: "nat \<Rightarrow> callback" where
  "rejectingHook n = \<lparr>cb_id = n, cb_logs = [], cb_time = 3, cb_throws = Some (Thrown ''hook failed'')\<rparr>"

definition exampleNew :: scenario where
  "exampleNew = newScenario None ''Homepage'' ''Resource'' 1000"

definition exampleOpened :: scenario where
  "exampleOpened = state_of (open_url examplePlatform ''https://example.com/a'' exampleNew)"

definition exampleReady :: scenario where
  "exampleReady =
     state_of (finally_hook (AFunction (exampleHook 13)) None
       (state_of (after_hook (AFunction (exampleHook 12)) None
         (state_of (before_hook (AString ''setting up'') (Some (exampleHook 11))
           (state_of (next_public (AString ''first phase'') (Some examplePhase) exampleOpened)))))))"

definition exampleExecuting :: scenario where
  "exampleExecuting = state_of (execute examplePlatform None exampleReady)"

definition exampleCompleted :: scenario where
  "exampleCompleted = state_of (processResponse exampleExecuting)"

definition exampleSkipped :: scenario where
  "exampleSkipped = state_of (skip (Some ''not today'') exampleReady)"

definition exampleFragile :: scenario where
  \<comment> \<open>executing, with an after hook that rejects and a finally hook\<close>
  "exampleFragile =
     state_of (execute examplePlatform None
       (state_of (finally_hook (AFunction (exampleHook 23)) None
         (state_of (after_hook (AFunction (rejectingHook 22)) None
           (state_of (next_public (AFunction examplePhase) None exampleOpened)))))))"

definition exampleFragileBefore :: scenario where
  \<comment> \<open>not yet executed, with a before hook that rejects and an after hook\<close>
  "exampleFragileBefore =
     state_of (after_hook (AFunction (exampleHook 32)) None
       (state_of (before_hook (AFunction (rejectingHook 31)) None
         (state_of (next_public (AFunction examplePhase) None exampleOpened)))))"






definition undefinedPhase :: phase where
  \<comment> \<open>a phase whose callback returns \<open>Promise.reject()\<close>\<close>
  "undefinedPhase =
     \<lparr>ph_id = 4, ph_logs = [], ph_throws = None, ph_incomplete = [],
      ph_return = Rejected 0 ThrownUndefined, ph_assertions = Fulfilled 0,
      ph_subscenarios = Fulfilled 0\<rparr>"



definition exampleUndefined :: scenario where
  \<comment> \<open>executing; the only phase rejects with \<open>undefined\<close>; no hooks\<close>
  "exampleUndefined =
     state_of (execute examplePlatform None
       (state_of (next_public (AFunction undefinedPhase) None exampleOpened)))"

text \<open>
  For the value wrapper: stand-ins for the helpers of \<open>util\<close> and for the collator (it
  orders numbers by their value and strings by their code units), and a heap with two
  values, a string and an array of numbers.
\<close>

fun compareStrings :: "string \<Rightarrow> string \<Rightarrow> int" where
  "compareStrings [] [] = 0"
| "compareStrings [] (d # t) = - 1"
| "compareStrings (c # s) [] = 1"
| "compareStrings (c # s) (d # t) =
     (if c = d then compareStrings s t
      else if (of_char c :: nat) < of_char d then - 1 else 1)"

fun exampleCompare :: "prim \<Rightarrow> prim \<Rightarrow> int" where
  "exampleCompare (PNum a) (PNum b) = (if a < b then - 1 else if a = b then 0 else 1)"
| "exampleCompare x y = compareStrings (js_String x) (js_String y)"

definition exampleUtil :: util where
  "exampleUtil =
     \<lparr>firstIn = (\<lambda>h x. case readData h x of
                          Some (Elements (y # ys)) \<Rightarrow> Prim y
                        | _ \<Rightarrow> Prim PUndefined),
      lastIn = (\<lambda>h x. case readData h x of
                         Some (Elements (y # ys)) \<Rightarrow> Prim (last (y # ys))
                       | _ \<Rightarrow> Prim PUndefined),
      nthIn = (\<lambda>h x n. case readData h x of
                          Some (Elements ys) \<Rightarrow>
                            if 0 \<le> n \<and> nat n < length ys then Prim (ys ! nat n)
                            else Prim PUndefined
                        | _ \<Rightarrow> Prim PUndefined),
      toOrdinal = (\<lambda>n. show_int n @ ''th''),
      collatorCompare = exampleCompare\<rparr>"

definition exampleHeap :: heap where
  "exampleHeap =
     \<lparr>arrays = [[PNum 2, PNum 1]],
      instances = [\<lparr>v_input = Prim (PStr ''a,b''), v_name = Some ''csv''\<rparr>,
                   \<lparr>v_input = ArrayRef 0, v_name = Some ''scores''\<rparr>]\<rparr>"

section \<open>The example scenarios, evaluated\<close>

lemma exampleNew_value:
  "exampleNew =
     \<lparr>title = ''Homepage'', log = [], nextCallbacks = [], beforeCallbacks = [],
         afterCallbacks = [], finallyCallbacks = [], failureCallbacks = [],
         successCallbacks = [], pipeCallbacks = [], timeScenarioInitialized = 1000,
         timeScenarioExecuted = None, timeRequestStarted = None, timeRequestLoaded = None,
         timeScenarioFinished = None, responseType = ''html'', responseTypeName = ''Resource'',
         finalUrl = None, waitToExecute = False, waitTime = 0, isMock = False,
         request_uri = None, request_method = ''get'', suite_baseUrl = None, now = 1000,
         events = []\<rparr>"
  unfolding exampleNew_def by code_simp

lemma exampleOpened_value:
  "exampleOpened =
     \<lparr>title = ''Homepage'', log = [], nextCallbacks = [], beforeCallbacks = [],
         afterCallbacks = [], finallyCallbacks = [], failureCallbacks = [],
         successCallbacks = [], pipeCallbacks = [], timeScenarioInitialized = 1000,
         timeScenarioExecuted = None, timeRequestStarted = None, timeRequestLoaded = None,
         timeScenarioFinished = None, responseType = ''html'', responseTypeName = ''Resource'',
         finalUrl = None, waitToExecute = False, waitTime = 0, isMock = False,
         request_uri = Some ''https://example.com/a'', request_method = ''get'',
         suite_baseUrl = None, now = 1000, events = []\<rparr>"
  unfolding exampleOpened_def exampleNew_value by code_simp

lemma exampleReady_value:
  "exampleReady =
     \<lparr>title = ''Homepage'', log = [],
         nextCallbacks =
           [(Some ''first phase'',
             \<lparr>ph_id = 1, ph_logs = [AssertionPass ''status is 200''], ph_throws = None,
                ph_incomplete = [], ph_return = Fulfilled 5, ph_assertions = Fulfilled 7,
                ph_subscenarios = Fulfilled 0\<rparr>)],
         beforeCallbacks =
           [\<lparr>message = Some ''setting up'',
               callback = \<lparr>cb_id = 11, cb_logs = [], cb_time = 3, cb_throws = None\<rparr>\<rparr>],
         afterCallbacks =
           [\<lparr>message = None,
               callback = \<lparr>cb_id = 12, cb_logs = [], cb_time = 3, cb_throws = None\<rparr>\<rparr>],
         finallyCallbacks =
           [\<lparr>message = None,
               callback = \<lparr>cb_id = 13, cb_logs = [], cb_time = 3, cb_throws = None\<rparr>\<rparr>],
         failureCallbacks = [], successCallbacks = [], pipeCallbacks = [],
         timeScenarioInitialized = 1000, timeScenarioExecuted = None,
         timeRequestStarted = None, timeRequestLoaded = None, timeScenarioFinished = None,
         responseType = ''html'', responseTypeName = ''Resource'', finalUrl = None,
         waitToExecute = False, waitTime = 0, isMock = False,
         request_uri = Some ''https://example.com/a'', request_method = ''get'',
         suite_baseUrl = None, now = 1000, events = []\<rparr>"
  unfolding exampleReady_def exampleOpened_value by code_simp

lemma exampleExecuting_value:
  "exampleExecuting =
     \<lparr>title = ''Homepage'',
         log = [LogComment ''setting up'', LogScenarioHeading ''Homepage''],
         nextCallbacks =
           [(Some ''first phase'',
             \<lparr>ph_id = 1, ph_logs = [AssertionPass ''status is 200''], ph_throws = None,
                ph_incomplete = [], ph_return = Fulfilled 5, ph_assertions = Fulfilled 7,
                ph_subscenarios = Fulfilled 0\<rparr>)],
         beforeCallbacks =
           [\<lparr>message = Some ''setting up'',
               callback = \<lparr>cb_id = 11, cb_logs = [], cb_time = 3, cb_throws = None\<rparr>\<rparr>],
         afterCallbacks =
           [\<lparr>message = None,
               callback = \<lparr>cb_id = 12, cb_logs = [], cb_time = 3, cb_throws = None\<rparr>\<rparr>],
         finallyCallbacks =
           [\<lparr>message = None,
               callback = \<lparr>cb_id = 13, cb_logs = [], cb_time = 3, cb_throws = None\<rparr>\<rparr>],
         failureCallbacks = [], successCallbacks = [], pipeCallbacks = [],
         timeScenarioInitialized = 1000, timeScenarioExecuted = Some 1000,
         timeRequestStarted = Some 1003, timeRequestLoaded = None, timeScenarioFinished = None,
         responseType = ''html'', responseTypeName = ''Resource'',
         finalUrl = Some ''https://example.com/a'', waitToExecute = False, waitTime = 0,
         isMock = False, request_uri = Some ''https://example.com/a'',
         request_method = ''get'', suite_baseUrl = None, now = 1003,
         events =
           [Fired Before, HookRan Before 11,
            Dispatched DefaultAdapter (Some ''https://example.com/a'')]\<rparr>"
  unfolding exampleExecuting_def exampleReady_value by code_simp

lemma exampleCompleted_value:
  "exampleCompleted =
     \<lparr>title = ''Homepage'',
         log =
           [LogComment ''setting up'', LogScenarioHeading ''Homepage'',
            AssertionPass ''Loaded Resource https://example.com/a'',
            LogScenarioSubHeading ''first phase'', AssertionPass ''status is 200'',
            LogComment ''Took 10ms''],
         nextCallbacks =
           [(Some ''first phase'',
             \<lparr>ph_id = 1, ph_logs = [AssertionPass ''status is 200''], ph_throws = None,
                ph_incomplete = [], ph_return = Fulfilled 5, ph_assertions = Fulfilled 7,
                ph_subscenarios = Fulfilled 0\<rparr>)],
         beforeCallbacks =
           [\<lparr>message = Some ''setting up'',
               callback = \<lparr>cb_id = 11, cb_logs = [], cb_time = 3, cb_throws = None\<rparr>\<rparr>],
         afterCallbacks =
           [\<lparr>message = None,
               callback = \<lparr>cb_id = 12, cb_logs = [], cb_time = 3, cb_throws = None\<rparr>\<rparr>],
         finallyCallbacks =
           [\<lparr>message = None,
               callback = \<lparr>cb_id = 13, cb_logs = [], cb_time = 3, cb_throws = None\<rparr>\<rparr>],
         failureCallbacks = [], successCallbacks = [], pipeCallbacks = [],
         timeScenarioInitialized = 1000, timeScenarioExecuted = Some 1000,
         timeRequestStarted = Some 1003, timeRequestLoaded = Some 1003,
         timeScenarioFinished = Some 1010, responseType = ''html'',
         responseTypeName = ''Resource'', finalUrl = Some ''https://example.com/a'',
         waitToExecute = False, waitTime = 0, isMock = False,
         request_uri = Some ''https://example.com/a'', request_method = ''get'',
         suite_baseUrl = None, now = 1016,
         events =
           [Fired Before, HookRan Before 11,
            Dispatched DefaultAdapter (Some ''https://example.com/a''), PhaseStarted 1 1003,
            Fired After, HookRan After 12, Commented ''Took 10ms'', Fired Success,
            Fired Finally, HookRan Finally 13]\<rparr>"
  unfolding exampleCompleted_def exampleExecuting_value by code_simp

lemma exampleSkipped_value:
  "exampleSkipped =
     \<lparr>title = ''Homepage'',
         log = [LogComment ''setting up'', LogComment ''Skipped: not today''],
         nextCallbacks =
           [(Some ''first phase'',
             \<lparr>ph_id = 1, ph_logs = [AssertionPass ''status is 200''], ph_throws = None,
                ph_incomplete = [], ph_return = Fulfilled 5, ph_assertions = Fulfilled 7,
                ph_subscenarios = Fulfilled 0\<rparr>)],
         beforeCallbacks =
           [\<lparr>message = Some ''setting up'',
               callback = \<lparr>cb_id = 11, cb_logs = [], cb_time = 3, cb_throws = None\<rparr>\<rparr>],
         afterCallbacks =
           [\<lparr>message = None,
               callback = \<lparr>cb_id = 12, cb_logs = [], cb_time = 3, cb_throws = None\<rparr>\<rparr>],
         finallyCallbacks =
           [\<lparr>message = None,
               callback = \<lparr>cb_id = 13, cb_logs = [], cb_time = 3, cb_throws = None\<rparr>\<rparr>],
         failureCallbacks = [], successCallbacks = [], pipeCallbacks = [],
         timeScenarioInitialized = 1000, timeScenarioExecuted = Some 1000,
         timeRequestStarted = None, timeRequestLoaded = None, timeScenarioFinished = Some 1003,
         responseType = ''html'', responseTypeName = ''Resource'', finalUrl = None,
         waitToExecute = False, waitTime = 0, isMock = False,
         request_uri = Some ''https://example.com/a'', request_method = ''get'',
         suite_baseUrl = None, now = 1009,
         events =
           [Fired Before, HookRan Before 11, Commented ''Skipped: not today'', Fired After,
            HookRan After 12, Fired Finally, HookRan Finally 13]\<rparr>"
  unfolding exampleSkipped_def exampleReady_value by code_simp

lemma exampleFragile_value:
  "exampleFragile =
     \<lparr>title = ''Homepage'', log = [LogScenarioHeading ''Homepage''],
         nextCallbacks =
           [(None,
             \<lparr>ph_id = 1, ph_logs = [AssertionPass ''status is 200''], ph_throws = None,
                ph_incomplete = [], ph_return = Fulfilled 5, ph_assertions = Fulfilled 7,
                ph_subscenarios = Fulfilled 0\<rparr>)],
         beforeCallbacks = [],
         afterCallbacks =
           [\<lparr>message = None,
               callback =
                 \<lparr>cb_id = 22, cb_logs = [], cb_time = 3,
                    cb_throws = Some (Thrown ''hook failed'')\<rparr>\<rparr>],
         finallyCallbacks =
           [\<lparr>message = None,
               callback = \<lparr>cb_id = 23, cb_logs = [], cb_time = 3, cb_throws = None\<rparr>\<rparr>],
         failureCallbacks = [], successCallbacks = [], pipeCallbacks = [],
         timeScenarioInitialized = 1000, timeScenarioExecuted = Some 1000,
         timeRequestStarted = Some 1000, timeRequestLoaded = None, timeScenarioFinished = None,
         responseType = ''html'', responseTypeName = ''Resource'',
         finalUrl = Some ''https://example.com/a'', waitToExecute = False, waitTime = 0,
         isMock = False, request_uri = Some ''https://example.com/a'',
         request_method = ''get'', suite_baseUrl = None, now = 1000,
         events = [Fired Before, Dispatched DefaultAdapter (Some ''https://example.com/a'')]\<rparr>"
  unfolding exampleFragile_def exampleOpened_value by code_simp

lemma exampleFragileBefore_value:
  "exampleFragileBefore =
     \<lparr>title = ''Homepage'', log = [],
         nextCallbacks =
           [(None,
             \<lparr>ph_id = 1, ph_logs = [AssertionPass ''status is 200''], ph_throws = None,
                ph_incomplete = [], ph_return = Fulfilled 5, ph_assertions = Fulfilled 7,
                ph_subscenarios = Fulfilled 0\<rparr>)],
         beforeCallbacks =
           [\<lparr>message = None,
               callback =
                 \<lparr>cb_id = 31, cb_logs = [], cb_time = 3,
                    cb_throws = Some (Thrown ''hook failed'')\<rparr>\<rparr>],
         afterCallbacks =
           [\<lparr>message = None,
               callback = \<lparr>cb_id = 32, cb_logs = [], cb_time = 3, cb_throws = None\<rparr>\<rparr>],
         finallyCallbacks = [], failureCallbacks = [], successCallbacks = [],
         pipeCallbacks = [], timeScenarioInitialized = 1000, timeScenarioExecuted = None,
         timeRequestStarted = None, timeRequestLoaded = None, timeScenarioFinished = None,
         responseType = ''html'', responseTypeName = ''Resource'', finalUrl = None,
         waitToExecute = False, waitTime = 0, isMock = False,
         request_uri = Some ''https://example.com/a'', request_method = ''get'',
         suite_baseUrl = None, now = 1000, events = []\<rparr>"
  unfolding exampleFragileBefore_def exampleOpened_value by code_simp






lemma exampleUndefined_value:
  "exampleUndefined =
     \<lparr>title = ''Homepage'', log = [LogScenarioHeading ''Homepage''],
         nextCallbacks =
           [(None,
             \<lparr>ph_id = 4, ph_logs = [], ph_throws = None, ph_incomplete = [],
                ph_return = Rejected 0 ThrownUndefined, ph_assertions = Fulfilled 0,
                ph_subscenarios = Fulfilled 0\<rparr>)],
         beforeCallbacks = [], afterCallbacks = [], finallyCallbacks = [],
         failureCallbacks = [], successCallbacks = [], pipeCallbacks = [],
         timeScenarioInitialized = 1000, timeScenarioExecuted = Some 1000,
         timeRequestStarted = Some 1000, timeRequestLoaded = None, timeScenarioFinished = None,
         responseType = ''html'', responseTypeName = ''Resource'',
         finalUrl = Some ''https://example.com/a'', waitToExecute = False, waitTime = 0,
         isMock = False, request_uri = Some ''https://example.com/a'',
         request_method = ''get'', suite_baseUrl = None, now = 1000,
         events = [Fired Before, Dispatched DefaultAdapter (Some ''https://example.com/a'')]\<rparr>"
  unfolding exampleUndefined_def exampleOpened_value by code_simp

lemma completion_exampleFragile:
  "markScenarioCompleted None None exampleFragile =
     Threw (Thrown ''hook failed'')
       \<lparr>title = ''Homepage'', log = [LogScenarioHeading ''Homepage''],
          nextCallbacks =
            [(None,
              \<lparr>ph_id = 1, ph_logs = [AssertionPass ''status is 200''], ph_throws = None,
                 ph_incomplete = [], ph_return = Fulfilled 5, ph_assertions = Fulfilled 7,
                 ph_subscenarios = Fulfilled 0\<rparr>)],
          beforeCallbacks = [],
          afterCallbacks =
            [\<lparr>message = None,
                callback =
                  \<lparr>cb_id = 22, cb_logs = [], cb_time = 3,
                     cb_throws = Some (Thrown ''hook failed'')\<rparr>\<rparr>],
          finallyCallbacks =
            [\<lparr>message = None,
                callback = \<lparr>cb_id = 23, cb_logs = [], cb_time = 3, cb_throws = None\<rparr>\<rparr>],
          failureCallbacks = [], successCallbacks = [], pipeCallbacks = [],
          timeScenarioInitialized = 1000, timeScenarioExecuted = Some 1000,
          timeRequestStarted = Some 1000, timeRequestLoaded = None,
          timeScenarioFinished = Some 1000, responseType = ''html'',
          responseTypeName = ''Resource'', finalUrl = Some ''https://example.com/a'',
          waitToExecute = False, waitTime = 0, isMock = False,
          request_uri = Some ''https://example.com/a'', request_method = ''get'',
          suite_baseUrl = None, now = 1003,
          events =
            [Fired Before, Dispatched DefaultAdapter (Some ''https://example.com/a''),
             Fired After, HookRan After 22]\<rparr>"
  unfolding exampleFragile_value by code_simp

lemma skip_exampleFragileBefore:
  "skip None exampleFragileBefore =
     Threw (Thrown ''hook failed'')
       \<lparr>title = ''Homepage'', log = [],
          nextCallbacks =
            [(None,
              \<lparr>ph_id = 1, ph_logs = [AssertionPass ''status is 200''], ph_throws = None,
                 ph_incomplete = [], ph_return = Fulfilled 5, ph_assertions = Fulfilled 7,
                 ph_subscenarios = Fulfilled 0\<rparr>)],
          beforeCallbacks =
            [\<lparr>message = None,
                callback =
                  \<lparr>cb_id = 31, cb_logs = [], cb_time = 3,
                     cb_throws = Some (Thrown ''hook failed'')\<rparr>\<rparr>],
          afterCallbacks =
            [\<lparr>message = None,
                callback = \<lparr>cb_id = 32, cb_logs = [], cb_time = 3, cb_throws = None\<rparr>\<rparr>],
          finallyCallbacks = [], failureCallbacks = [], successCallbacks = [],
          pipeCallbacks = [], timeScenarioInitialized = 1000, timeScenarioExecuted = Some 1000,
          timeRequestStarted = None, timeRequestLoaded = None, timeScenarioFinished = None,
          responseType = ''html'', responseTypeName = ''Resource'', finalUrl = None,
          waitToExecute = False, waitTime = 0, isMock = False,
          request_uri = Some ''https://example.com/a'', request_method = ''get'',
          suite_baseUrl = None, now = 1003, events = [Fired Before, HookRan Before 31]\<rparr>"
  unfolding exampleFragileBefore_value by code_simp


lemma processResponse_exampleUndefined:
  "processResponse exampleUndefined =
     Ok \<lparr>title = ''Homepage'',
            log =
              [LogScenarioHeading ''Homepage'',
               AssertionPass ''Loaded Resource https://example.com/a'',
               LogComment ''Took 0ms''],
            nextCallbacks =
              [(None,
                \<lparr>ph_id = 4, ph_logs = [], ph_throws = None, ph_incomplete = [],
                   ph_return = Rejected 0 ThrownUndefined, ph_assertions = Fulfilled 0,
                   ph_subscenarios = Fulfilled 0\<rparr>)],
            beforeCallbacks = [], afterCallbacks = [], finallyCallbacks = [],
            failureCallbacks = [], successCallbacks = [], pipeCallbacks = [],
            timeScenarioInitialized = 1000, timeScenarioExecuted = Some 1000,
            timeRequestStarted = Some 1000, timeRequestLoaded = Some 1000,
            timeScenarioFinished = Some 1000, responseType = ''html'',
            responseTypeName = ''Resource'', finalUrl = Some ''https://example.com/a'',
            waitToExecute = False, waitTime = 0, isMock = False,
            request_uri = Some ''https://example.com/a'', request_method = ''get'',
            suite_baseUrl = None, now = 1000,
            events =
              [Fired Before, Dispatched DefaultAdapter (Some ''https://example.com/a''),
               PhaseStarted 4 1000, Fired After, Commented ''Took 0ms'', Fired Success,
               Fired Finally]\<rparr>"
  unfolding exampleUndefined_value by code_simp



lemma set_url_exampleSkipped:
  "set_url examplePlatform (Some ''/other'') exampleSkipped =
     Ok \<lparr>title = ''Homepage'',
            log = [LogComment ''setting up'', LogComment ''Skipped: not today''],
            nextCallbacks =
              [(Some ''first phase'',
                \<lparr>ph_id = 1, ph_logs = [AssertionPass ''status is 200''], ph_throws = None,
                   ph_incomplete = [], ph_return = Fulfilled 5, ph_assertions = Fulfilled 7,
                   ph_subscenarios = Fulfilled 0\<rparr>)],
            beforeCallbacks =
              [\<lparr>message = Some ''setting up'',
                  callback = \<lparr>cb_id = 11, cb_logs = [], cb_time = 3, cb_throws = None\<rparr>\<rparr>],
            afterCallbacks =
              [\<lparr>message = None,
                  callback = \<lparr>cb_id = 12, cb_logs = [], cb_time = 3, cb_throws = None\<rparr>\<rparr>],
            finallyCallbacks =
              [\<lparr>message = None,
                  callback = \<lparr>cb_id = 13, cb_logs = [], cb_time = 3, cb_throws = None\<rparr>\<rparr>],
            failureCallbacks = [], successCallbacks = [], pipeCallbacks = [],
            timeScenarioInitialized = 1000, timeScenarioExecuted = Some 1000,
            timeRequestStarted = None, timeRequestLoaded = None,
            timeScenarioFinished = Some 1003, responseType = ''html'',
            responseTypeName = ''Resource'', finalUrl = None, waitToExecute = False,
            waitTime = 0, isMock = False, request_uri = Some ''/other'',
            request_method = ''get'', suite_baseUrl = None, now = 1009,
            events =
              [Fired Before, HookRan Before 11, Commented ''Skipped: not today'', Fired After,
               HookRan After 12, Fired Finally, HookRan Finally 13]\<rparr>"
  unfolding exampleSkipped_value by code_simp


section \<open>Properties of the scenario\<close>

subsection \<open>What the setters leave alone\<close>

lemma set_url_frame:
  "events (state_of (set_url P v s)) = events s \<and>
   log (state_of (set_url P v s)) = log s \<and>
   timeScenarioExecuted (state_of (set_url P v s)) = timeScenarioExecuted s \<and>
   timeRequestStarted (state_of (set_url P v s)) = timeRequestStarted s \<and>
   nextCallbacks (state_of (set_url P v s)) = nextCallbacks s"
  by (auto simp: set_url_def wait_def setMethod_def Let_def split: option.splits prod.splits)

lemma applyPathParams_frame:
  "events (state_of (applyPathParams P ps s)) = events s \<and>
   log (state_of (applyPathParams P ps s)) = log s \<and>
   timeScenarioExecuted (state_of (applyPathParams P ps s)) = timeScenarioExecuted s \<and>
   timeRequestStarted (state_of (applyPathParams P ps s)) = timeRequestStarted s \<and>
   nextCallbacks (state_of (applyPathParams P ps s)) = nextCallbacks s"
proof (induction ps arbitrary: s)
  case Nil
  show ?case by simp
next
  case (Cons kv ps)
  obtain key v where kv: "kv = (key, v)" by (cases kv)
  let ?r = "set_url P (orNull (map_option (\<lambda>u. js_replace u (''{'' @ key @ ''}'') v) (url s))) s"
  show ?case
  proof (cases ?r)
    case (Ok s1)
    with set_url_frame [of P _ s] Cons.IH [of s1] kv show ?thesis
      by (metis andThen.simps(1) applyPathParams.simps(2) state_of.simps(1))
  next
    case (Threw e s1)
    with set_url_frame [of P _ s] kv show ?thesis
      by (metis andThen.simps(2) applyPathParams.simps(2) state_of.simps(2))
  qed
qed

subsection \<open>Firing a hook list\<close>

lemma logMessage_eq: "logMessage m s = s\<lparr>log := log s @ messageLog m\<rparr>"
  by (simp add: logMessage_def messageLog_def pushToLog_def split: option.splits)

lemma fireCallbacks_state:
  "state_of (fireCallbacks k hs s) =
     s\<lparr>log := log s @ hookLogs (upToThrow hs),
       now := now s + int (hookTime (upToThrow hs)),
       events := events s @ hookRuns k (upToThrow hs)\<rparr>"
proof (induction hs arbitrary: s)
  case Nil
  show ?case by (simp add: hookLogs_def hookRuns_def hookTime_def)
next
  case (Cons h hs)
  show ?case
  proof (cases "cb_throws (callback h)")
    case None
    then show ?thesis
      by (simp add: Cons.IH Let_def runCallback_def logMessage_eq hookLogs_def hookRuns_def
          hookTime_def)
  next
    case (Some e)
    then show ?thesis
      by (simp add: Let_def runCallback_def logMessage_eq hookLogs_def hookRuns_def
          hookTime_def)
  qed
qed

lemma upToThrow_allResolve: "allResolve hs \<Longrightarrow> upToThrow hs = hs"
  by (induction hs) (auto simp: allResolve_def)

lemma fireCallbacks_Ok_iff: "(\<exists>s'. fireCallbacks k hs s = Ok s') \<longleftrightarrow> allResolve hs"
  by (induction hs arbitrary: s) (auto simp: allResolve_def Let_def split: option.splits)

lemma fireCallbacks_allResolve:
  "allResolve hs \<Longrightarrow> fireCallbacks k hs s =
     Ok (s\<lparr>log := log s @ hookLogs hs, now := now s + int (hookTime hs),
           events := events s @ hookRuns k hs\<rparr>)"
  using fireCallbacks_state [of k hs s] fireCallbacks_Ok_iff [of k hs s]
  by (auto simp: upToThrow_allResolve)

lemma andThen_case: "andThen r f = (case r of Ok s \<Rightarrow> f s | Threw e s \<Rightarrow> Threw e s)"
  by (cases r) simp_all

lemma count_hookRuns [simp]: "count_list (hookRuns k hs) (Fired k') = 0"
  by (induction hs) (auto simp: hookRuns_def)

lemma commented_hookRuns [simp]: "filter isCommented (hookRuns k hs) = []"
  by (induction hs) (auto simp: hookRuns_def)

lemma requestOrPhase_hookRuns [simp]: "filter isRequestOrPhase (hookRuns k hs) = []"
  by (induction hs) (auto simp: hookRuns_def)

lemma fireCallbacks_proj [simp]:
  "events (state_of (fireCallbacks k hs s)) = events s @ hookRuns k (upToThrow hs)"
  "timeScenarioExecuted (state_of (fireCallbacks k hs s)) = timeScenarioExecuted s"
  "timeScenarioFinished (state_of (fireCallbacks k hs s)) = timeScenarioFinished s"
  "finallyCallbacks (state_of (fireCallbacks k hs s)) = finallyCallbacks s"
  "failureCallbacks (state_of (fireCallbacks k hs s)) = failureCallbacks s"
  "successCallbacks (state_of (fireCallbacks k hs s)) = successCallbacks s"
  by (simp_all add: fireCallbacks_state)

lemma fireAfter_proj [simp]:
  "events (state_of (fireAfter s)) = events s @ Fired After # hookRuns After (upToThrow (afterCallbacks s))"
  "timeScenarioExecuted (state_of (fireAfter s)) = timeScenarioExecuted s"
  "timeScenarioFinished (state_of (fireAfter s)) = Some (now s)"
  by (simp_all add: fireAfter_def Let_def fired_def)

lemma fireSuccess_proj [simp]:
  "events (state_of (fireSuccess s)) = events s @ Fired Success # hookRuns Success (upToThrow (successCallbacks s))"
  "timeScenarioExecuted (state_of (fireSuccess s)) = timeScenarioExecuted s"
  "timeScenarioFinished (state_of (fireSuccess s)) = timeScenarioFinished s"
  "finallyCallbacks (state_of (fireSuccess s)) = finallyCallbacks s"
  by (simp_all add: fireSuccess_def fired_def)

lemma fireFailure_proj [simp]:
  "events (state_of (fireFailure m s)) = events s @ Fired Failure # hookRuns Failure (upToThrow (failureCallbacks s))"
  "timeScenarioExecuted (state_of (fireFailure m s)) = timeScenarioExecuted s"
  "timeScenarioFinished (state_of (fireFailure m s)) = timeScenarioFinished s"
  "finallyCallbacks (state_of (fireFailure m s)) = finallyCallbacks s"
  by (cases "fireCallbacks Failure (failureCallbacks s) (fired Failure s)";
      use fireCallbacks_proj [of Failure "failureCallbacks s" "fired Failure s"] in
        \<open>simp add: fireFailure_def fired_def logMessage_eq\<close>)+

lemma fireFinally_proj [simp]:
  "events (state_of (fireFinally s)) = events s @ Fired Finally # hookRuns Finally (upToThrow (finallyCallbacks s))"
  "timeScenarioExecuted (state_of (fireFinally s)) = timeScenarioExecuted s"
  "timeScenarioFinished (state_of (fireFinally s)) = timeScenarioFinished s"
  by (simp_all add: fireFinally_def fired_def)

lemma fireBefore_proj [simp]:
  "events (state_of (fireBefore s)) = events s @ Fired Before # hookRuns Before (upToThrow (beforeCallbacks s))"
  "timeScenarioExecuted (state_of (fireBefore s)) = timeScenarioExecuted s"
  "timeScenarioFinished (state_of (fireBefore s)) = timeScenarioFinished s"
  "afterCallbacks (state_of (fireBefore s)) = afterCallbacks s"
  "finallyCallbacks (state_of (fireBefore s)) = finallyCallbacks s"
  by (simp_all add: fireBefore_def fired_def fireCallbacks_state)

lemma fireAfter_lists [simp]:
  "finallyCallbacks (state_of (fireAfter s)) = finallyCallbacks s"
  by (simp add: fireAfter_def Let_def fired_def fireCallbacks_state)

subsection \<open>Executing twice\<close>


lemma exampleExecuting_hasExecuted: "hasExecuted exampleExecuting"
  by (simp add: exampleExecuting_value hasExecuted_def)


subsection \<open>No phase, no execution\<close>

text \<open>
  C5. A scenario with a target and no assertion phase is not ready to execute, and a
  call of \<open>execute\<close> on it, with or without path parameters, fires no hook, dispatches
  no request and leaves the execution unstarted.
\<close>

theorem no_phase_not_ready:
  assumes "url s = Some u" and "nextCallbacks s = []"
  shows "\<not> isReadyToExecute s
         \<and> events (state_of (execute P pathParams s)) = events s
         \<and> timeScenarioExecuted (state_of (execute P pathParams s)) = timeScenarioExecuted s"
proof -
  have ready: "\<not> isReadyToExecute s"
    using assms by (simp add: isReadyToExecute_def hasNextCallbacks_def)
  define r where "r = (case pathParams of None \<Rightarrow> Ok s | Some ps \<Rightarrow> applyPathParams P ps s)"
  have fr: "events (state_of r) = events s \<and>
            timeScenarioExecuted (state_of r) = timeScenarioExecuted s \<and>
            nextCallbacks (state_of r) = nextCallbacks s"
    using applyPathParams_frame [of P _ s] by (auto simp: r_def split: option.splits)
  have "events (state_of (execute P pathParams s)) = events s
        \<and> timeScenarioExecuted (state_of (execute P pathParams s)) = timeScenarioExecuted s"
  proof (cases "hasExecuted s")
    case True
    then show ?thesis by (simp add: execute_def)
  next
    case False
    show ?thesis
    proof (cases r)
      case (Ok s1)
      with fr assms have "\<not> isReadyToExecute (wait False s1)"
        by (simp add: isReadyToExecute_def hasNextCallbacks_def wait_def Let_def)
      with Ok False fr show ?thesis
        by (simp add: execute_def r_def [symmetric] Let_def wait_def)
    next
      case (Threw e s1)
      with False fr show ?thesis
        by (simp add: execute_def r_def [symmetric])
    qed
  qed
  with ready show ?thesis by simp
qed

theorem no_phase_not_ready_witness:
  "url exampleOpened = Some ''https://example.com/a'' \<and> nextCallbacks exampleOpened = []
   \<and> \<not> isReadyToExecute exampleOpened
   \<and> events (state_of (execute examplePlatform None exampleOpened)) = events exampleOpened"
proof -
  have u: "url exampleOpened = Some ''https://example.com/a''"
    by (simp add: exampleOpened_value url_def)
  have n: "nextCallbacks exampleOpened = []"
    by (simp add: exampleOpened_value)
  from no_phase_not_ready [OF u n, of examplePlatform None] u n show ?thesis by simp
qed

subsection \<open>The finishing sequence\<close>

lemma completion_resolved:
  assumes ex: "timeScenarioExecuted s = Some t" and nf: "timeScenarioFinished s = None"
    and K: "K = (if errorMessage = None \<and> \<not> list_ex resultFailure (log s @ hookLogs (afterCallbacks s))
                 then Success else Failure)"
    and took: "took = ''Took '' @ show_int (now s - t) @ ''ms''"
    and ra: "allResolve (afterCallbacks s)"
    and rk: "allResolve (callbacksOf K s)"
    and rf: "allResolve (finallyCallbacks s)"
  shows "\<exists>s'. markScenarioCompleted errorMessage errorDetails s = Ok s' \<and>
           events s' = events s @ Fired After # hookRuns After (afterCallbacks s) @
                       Commented took # Fired K # hookRuns K (callbacksOf K s) @
                       Fired Finally # hookRuns Finally (finallyCallbacks s) \<and>
           log s' = log s @ hookLogs (afterCallbacks s) @ [LogComment took] @
                    (case errorMessage of None \<Rightarrow> [] | Some m \<Rightarrow> [AssertionFail m errorDetails]) @
                    hookLogs (callbacksOf K s) @
                    (case errorMessage of None \<Rightarrow> []
                     | Some m \<Rightarrow> messageLog (orElse errorDetails (Some m))) @
                    hookLogs (finallyCallbacks s)"
proof (cases errorMessage)
  case None
  show ?thesis
  proof (cases "list_ex resultFailure (log s @ hookLogs (afterCallbacks s))")
    case True
    with None K have k: "K = Failure" by simp
    with rk have rk': "allResolve (failureCallbacks s)" by simp
    show ?thesis using None True
      by (simp add: markScenarioCompleted_def hasFinished_def nf fireAfter_def Let_def fired_def
          fireCallbacks_allResolve ra rk' rf comment_def pushToLog_def executionDuration_def ex
          showDuration_def hasPassed_def hasFailed_def hasExecuted_def fireFailure_def
          fireFinally_def logMessage_eq messageLog_def k took)
  next
    case False
    with None K have k: "K = Success" by simp
    with rk have rk': "allResolve (successCallbacks s)" by simp
    show ?thesis using None False
      by (simp add: markScenarioCompleted_def hasFinished_def nf fireAfter_def Let_def fired_def
          fireCallbacks_allResolve ra rk' rf comment_def pushToLog_def executionDuration_def ex
          showDuration_def hasPassed_def hasFailed_def hasExecuted_def fireSuccess_def
          fireFinally_def k took)
  qed
next
  case (Some m)
  with K have k: "K = Failure" by simp
  with rk have rk': "allResolve (failureCallbacks s)" by simp
  show ?thesis using Some
    by (simp add: markScenarioCompleted_def hasFinished_def nf fireAfter_def Let_def fired_def
        fireCallbacks_allResolve ra rk' rf comment_def pushToLog_def executionDuration_def ex
        showDuration_def result_def fireFailure_def
        fireFinally_def logMessage_eq k took)
qed

text \<open>
  C3, as amended. When the completion routine runs on a scenario that is executing and
  not finished, and every after hook, every hook of the list chosen and every finally
  hook resolves, then the trace and the log grow by exactly this sequence: the after
  hooks in order, the duration comment, the hooks of exactly one of the success and
  failure lists, and the finally hooks last. The list chosen is the failure list when
  an error message was passed, and otherwise the success list exactly when the log
  (which by then holds what the after hooks logged) has no failing entry. A hook that
  rejects ends the routine at that hook: see \<open>completion_sequence_counterexample\<close>.
\<close>

theorem completion_sequence:
  assumes ex: "timeScenarioExecuted s = Some t" and nf: "timeScenarioFinished s = None"
    and K: "K = (if errorMessage = None \<and> \<not> list_ex resultFailure (log s @ hookLogs (afterCallbacks s))
                 then Success else Failure)"
    and took: "took = ''Took '' @ show_int (now s - t) @ ''ms''"
    and ra: "allResolve (afterCallbacks s)"
    and rk: "allResolve (callbacksOf K s)"
    and rf: "allResolve (finallyCallbacks s)"
  shows "\<exists>s'. markScenarioCompleted errorMessage errorDetails s = Ok s' \<and>
           events s' = events s @ Fired After # hookRuns After (afterCallbacks s) @
                       Commented took # Fired K # hookRuns K (callbacksOf K s) @
                       Fired Finally # hookRuns Finally (finallyCallbacks s) \<and>
           log s' = log s @ hookLogs (afterCallbacks s) @ [LogComment took] @
                    (case errorMessage of None \<Rightarrow> [] | Some m \<Rightarrow> [AssertionFail m errorDetails]) @
                    hookLogs (callbacksOf K s) @
                    (case errorMessage of None \<Rightarrow> []
                     | Some m \<Rightarrow> messageLog (orElse errorDetails (Some m))) @
                    hookLogs (finallyCallbacks s)"
  using assms by (rule completion_resolved)

lemma exampleExecuting_stamps:
  "timeScenarioExecuted exampleExecuting = Some 1000"
  "timeScenarioFinished exampleExecuting = None"
  "now exampleExecuting = 1003"
  by (simp_all add: exampleExecuting_value)

lemma exampleExecuting_hooks:
  "allResolve (afterCallbacks exampleExecuting)"
  "allResolve (successCallbacks exampleExecuting)"
  "allResolve (finallyCallbacks exampleExecuting)"
  "\<not> list_ex resultFailure (log exampleExecuting @ hookLogs (afterCallbacks exampleExecuting))"
  by (simp_all add: exampleExecuting_value allResolve_def hookLogs_def messageLog_def)

theorem completion_sequence_witness:
  "timeScenarioExecuted exampleExecuting = Some 1000 \<and>
   timeScenarioFinished exampleExecuting = None \<and>
   allResolve (afterCallbacks exampleExecuting) \<and>
   allResolve (callbacksOf Success exampleExecuting) \<and>
   allResolve (finallyCallbacks exampleExecuting) \<and>
   (\<exists>s'. markScenarioCompleted None None exampleExecuting = Ok s' \<and>
         events s' = events exampleExecuting @ Fired After #
                     hookRuns After (afterCallbacks exampleExecuting) @
                     Commented ''Took 3ms'' # Fired Success #
                     hookRuns Success (successCallbacks exampleExecuting) @
                     Fired Finally # hookRuns Finally (finallyCallbacks exampleExecuting))"
proof -
  have K: "Success = (if (None :: string option) = None \<and>
                         \<not> list_ex resultFailure
                             (log exampleExecuting @ hookLogs (afterCallbacks exampleExecuting))
                      then Success else Failure)"
    using exampleExecuting_hooks(4) by simp
  have took: "''Took 3ms'' = ''Took '' @ show_int (now exampleExecuting - 1000) @ ''ms''"
    by (simp add: exampleExecuting_stamps(3) show_int_def show_nat.simps digitChar_def)
  have rk: "allResolve (callbacksOf Success exampleExecuting)"
    using exampleExecuting_hooks(2) by simp
  from completion_sequence [OF exampleExecuting_stamps(1,2) K took exampleExecuting_hooks(1)
      rk exampleExecuting_hooks(3), of None]
  show ?thesis
    using exampleExecuting_stamps(1,2) exampleExecuting_hooks(1,3) rk by auto
qed

theorem completion_sequence_counterexample:
  "hasExecuted exampleFragile \<and> \<not> hasFinished exampleFragile \<and>
   finallyCallbacks exampleFragile \<noteq> [] \<and>
   threw (markScenarioCompleted None None exampleFragile) \<and>
   Fired Finally \<notin> set (events (state_of (markScenarioCompleted None None exampleFragile))) \<and>
   Fired Success \<notin> set (events (state_of (markScenarioCompleted None None exampleFragile))) \<and>
   Fired Failure \<notin> set (events (state_of (markScenarioCompleted None None exampleFragile)))"
  by (simp add: completion_exampleFragile)
    (simp add: exampleFragile_value hasExecuted_def hasFinished_def)

subsection \<open>Completing once\<close>

lemma completion_effect:
  "(hasFinished s \<longrightarrow> markScenarioCompleted e d s = Ok s) \<and>
   (hasExecuted s \<longrightarrow>
      hasFinished (state_of (markScenarioCompleted e d s)) \<and>
      markScenarioCompleted e' d' (state_of (markScenarioCompleted e d s)) =
        Ok (state_of (markScenarioCompleted e d s)) \<and>
      (\<forall>k. count_list (events (state_of (markScenarioCompleted e d s))) (Fired k)
             \<le> count_list (events s) (Fired k) + 1) \<and>
      length (filter isCommented (events (state_of (markScenarioCompleted e d s))))
        \<le> length (filter isCommented (events s)) + 1)"
proof -
  have fin: "\<And>s. hasFinished s \<Longrightarrow> markScenarioCompleted e' d' s = Ok s"
    by (simp add: markScenarioCompleted_def)
  have fin0: "hasFinished s \<longrightarrow> markScenarioCompleted e d s = Ok s"
    by (simp add: markScenarioCompleted_def)
  let ?s' = "state_of (markScenarioCompleted e d s)"
  have main: "hasFinished ?s' \<and>
      (\<forall>k. count_list (events ?s') (Fired k) \<le> count_list (events s) (Fired k) + 1) \<and>
      length (filter isCommented (events ?s')) \<le> length (filter isCommented (events s)) + 1"
    if ex: "hasExecuted s"
  proof (cases "hasFinished s")
    case True
    then show ?thesis by (simp add: markScenarioCompleted_def)
  next
    case nf: False
    show ?thesis
    proof (cases "fireAfter s")
      case (Threw x s1)
      then have s1: "s1 = state_of (fireAfter s)" by simp
      have "?s' = s1"
        using nf Threw by (simp add: markScenarioCompleted_def)
      then show ?thesis
        using ex by (simp add: s1 hasFinished_def hasExecuted_def)
    next
      case (Ok s1)
      then have s1: "s1 = state_of (fireAfter s)" by simp
      define c where "c = ''Took '' @ showDuration (executionDuration s1) @ ''ms''"
      define s2 where "s2 = comment c s1"
      have s2: "events s2 = events s1 @ [Commented c]"
        "timeScenarioExecuted s2 = timeScenarioExecuted s1"
        "timeScenarioFinished s2 = timeScenarioFinished s1"
        by (simp_all add: s2_def comment_def pushToLog_def)
      define r where "r = (case e of
                             None \<Rightarrow> if hasPassed s2 then fireSuccess s2 else fireFailure None s2
                           | Some m \<Rightarrow> fireFailure (orElse d (Some m))
                                        (result (AssertionFail m d) s2))"
      have msc: "markScenarioCompleted e d s = andThen r fireFinally"
        using nf Ok
        by (cases e) (simp_all add: markScenarioCompleted_def Let_def s2_def r_def c_def)
      have r: "\<exists>K hs. (K = Success \<or> K = Failure) \<and>
                 events (state_of r) = events s2 @ Fired K # hookRuns K hs"
        "timeScenarioExecuted (state_of r) = timeScenarioExecuted s2"
        "timeScenarioFinished (state_of r) = timeScenarioFinished s2"
        by (auto simp: r_def result_def pushToLog_def split: option.splits)
      then obtain K hs where K: "K = Success \<or> K = Failure"
        and evr: "events (state_of r) = events s2 @ Fired K # hookRuns K hs"
        by blast
      show ?thesis
      proof (cases r)
        case (Threw y s3)
        then have "?s' = state_of r" by (simp add: msc)
        then show ?thesis
          using ex K r(2,3) by (auto simp: evr s2 s1 hasFinished_def hasExecuted_def)
      next
        case (Ok s3)
        then have "?s' = state_of (fireFinally (state_of r))" by (simp add: msc)
        then show ?thesis
          using ex K r(2,3) by (auto simp: evr s2 s1 hasFinished_def hasExecuted_def)
      qed
    qed
  qed
  show ?thesis using fin0 main fin by blast
qed

text \<open>
  C10. A completion call on a finished scenario returns the scenario as it is. A
  completion call on a scenario that has started executing leaves it finished, whether
  the call returns or a hook rejects, so every later call changes nothing; and that one
  call fires each hook list at most once and writes at most one comment (the duration
  comment).
\<close>

theorem completion_once:
  "(hasFinished s \<longrightarrow> markScenarioCompleted e d s = Ok s) \<and>
   (hasExecuted s \<longrightarrow>
      hasFinished (state_of (markScenarioCompleted e d s)) \<and>
      markScenarioCompleted e' d' (state_of (markScenarioCompleted e d s)) =
        Ok (state_of (markScenarioCompleted e d s)) \<and>
      (\<forall>k. count_list (events (state_of (markScenarioCompleted e d s))) (Fired k)
             \<le> count_list (events s) (Fired k) + 1) \<and>
      length (filter isCommented (events (state_of (markScenarioCompleted e d s))))
        \<le> length (filter isCommented (events s)) + 1)"
  by (rule completion_effect)

lemma exampleCompleted_finished: "hasFinished exampleCompleted" "hasExecuted exampleCompleted"
  by (simp_all add: exampleCompleted_value hasFinished_def hasExecuted_def)

theorem completion_once_witness:
  "hasFinished exampleCompleted \<and> hasExecuted exampleCompleted \<and>
   markScenarioCompleted (Some ''too late'') None exampleCompleted = Ok exampleCompleted \<and>
   hasExecuted exampleExecuting \<and>
   hasFinished (state_of (markScenarioCompleted None None exampleExecuting)) \<and>
   markScenarioCompleted (Some ''too late'') None
       (state_of (markScenarioCompleted None None exampleExecuting)) =
     Ok (state_of (markScenarioCompleted None None exampleExecuting))"
  using completion_once [of exampleCompleted "Some ''too late''" None None None]
    completion_once [of exampleExecuting None None "Some ''too late''" None]
    exampleCompleted_finished exampleExecuting_hasExecuted
  by blast

subsection \<open>Skipping\<close>

lemma skip_no_request:
  "filter isRequestOrPhase (events (state_of (skip msg s))) = filter isRequestOrPhase (events s)"
proof (cases "hasExecuted s")
  case True
  then show ?thesis by (simp add: skip_def)
next
  case False
  define s0 where "s0 = markExecutionAsStarted s"
  have e0: "events s0 = events s" by (simp add: s0_def markExecutionAsStarted_def)
  show ?thesis
  proof (cases "fireBefore s0")
    case (Threw x s1)
    then have "s1 = state_of (fireBefore s0)" by simp
    moreover have "state_of (skip msg s) = s1"
      using False Threw by (simp add: skip_def s0_def)
    ultimately show ?thesis by (simp add: e0)
  next
    case (Ok s1)
    then have s1: "s1 = state_of (fireBefore s0)" by simp
    define s2 where "s2 = comment (skipComment msg) s1"
    have e2: "filter isRequestOrPhase (events s2) = filter isRequestOrPhase (events s)"
      by (simp add: s2_def comment_def pushToLog_def s1 e0)
    have sk: "skip msg s = andThen (fireAfter s2) fireFinally"
      using False Ok by (simp add: skip_def s0_def s2_def)
    show ?thesis
    proof (cases "fireAfter s2")
      case (Threw y s3)
      then have "state_of (skip msg s) = state_of (fireAfter s2)" by (simp add: sk)
      then show ?thesis by (simp add: e2)
    next
      case (Ok s3)
      then have "state_of (skip msg s) = state_of (fireFinally (state_of (fireAfter s2)))"
        by (simp add: sk)
      then show ?thesis by (simp add: e2)
    qed
  qed
qed

text \<open>
  C9, as amended. Whatever its hooks do, \<open>skip\<close> dispatches no request and starts no
  assertion phase. On a scenario that has not started executing and whose before, after
  and finally hooks all resolve, \<open>skip\<close> returns, and the trace and the log grow by
  exactly: the before hooks in order, the one skip comment, the after hooks in order,
  the finally hooks in order. A hook that rejects ends \<open>skip\<close> at that hook: see
  \<open>skip_sequence_counterexample\<close>.
\<close>

theorem skip_sequence:
  "filter isRequestOrPhase (events (state_of (skip msg s))) = filter isRequestOrPhase (events s) \<and>
   (\<not> hasExecuted s \<and> allResolve (beforeCallbacks s) \<and> allResolve (afterCallbacks s) \<and>
    allResolve (finallyCallbacks s) \<longrightarrow>
      (\<exists>s'. skip msg s = Ok s' \<and>
         events s' = events s @ Fired Before # hookRuns Before (beforeCallbacks s) @
                     Commented (skipComment msg) # Fired After #
                     hookRuns After (afterCallbacks s) @
                     Fired Finally # hookRuns Finally (finallyCallbacks s) \<and>
         log s' = log s @ hookLogs (beforeCallbacks s) @ [LogComment (skipComment msg)] @
                  hookLogs (afterCallbacks s) @ hookLogs (finallyCallbacks s)))"
proof -
  have "\<exists>s'. skip msg s = Ok s' \<and>
         events s' = events s @ Fired Before # hookRuns Before (beforeCallbacks s) @
                     Commented (skipComment msg) # Fired After #
                     hookRuns After (afterCallbacks s) @
                     Fired Finally # hookRuns Finally (finallyCallbacks s) \<and>
         log s' = log s @ hookLogs (beforeCallbacks s) @ [LogComment (skipComment msg)] @
                  hookLogs (afterCallbacks s) @ hookLogs (finallyCallbacks s)"
    if ne: "\<not> hasExecuted s" and rb: "allResolve (beforeCallbacks s)"
      and ra: "allResolve (afterCallbacks s)" and rf: "allResolve (finallyCallbacks s)"
    using ne
    by (simp add: skip_def fireBefore_def fireAfter_def fireFinally_def fired_def Let_def
        markExecutionAsStarted_def fireCallbacks_allResolve rb ra rf comment_def pushToLog_def)
  with skip_no_request [of msg s] show ?thesis by blast
qed

lemma exampleReady_facts:
  "\<not> hasExecuted exampleReady"
  "allResolve (beforeCallbacks exampleReady)"
  "allResolve (afterCallbacks exampleReady)"
  "allResolve (finallyCallbacks exampleReady)"
  by (simp_all add: exampleReady_value hasExecuted_def allResolve_def)

theorem skip_sequence_witness:
  "\<not> hasExecuted exampleReady \<and> allResolve (beforeCallbacks exampleReady) \<and>
   allResolve (afterCallbacks exampleReady) \<and> allResolve (finallyCallbacks exampleReady) \<and>
   (\<exists>s'. skip (Some ''not today'') exampleReady = Ok s' \<and>
      events s' = events exampleReady @ Fired Before #
                  hookRuns Before (beforeCallbacks exampleReady) @
                  Commented (skipComment (Some ''not today'')) # Fired After #
                  hookRuns After (afterCallbacks exampleReady) @
                  Fired Finally # hookRuns Finally (finallyCallbacks exampleReady) \<and>
      log s' = log exampleReady @ hookLogs (beforeCallbacks exampleReady) @
               [LogComment (skipComment (Some ''not today''))] @
               hookLogs (afterCallbacks exampleReady) @
               hookLogs (finallyCallbacks exampleReady))"
  using skip_sequence [of "Some ''not today''" exampleReady] exampleReady_facts by blast

theorem skip_sequence_counterexample:
  "\<not> hasExecuted exampleFragileBefore \<and>
   afterCallbacks exampleFragileBefore \<noteq> [] \<and>
   threw (skip None exampleFragileBefore) \<and>
   log (state_of (skip None exampleFragileBefore)) = [] \<and>
   events (state_of (skip None exampleFragileBefore)) = [Fired Before, HookRan Before 31]"
  by (simp add: skip_exampleFragileBefore)
    (simp add: exampleFragileBefore_value hasExecuted_def)

subsection \<open>Mutation after the start and after the end\<close>

text \<open>
  C4, as amended. On a finished scenario every registration of a lifecycle hook, a pipe
  hook or an assertion phase throws; once execution has started the title setter and
  \<open>open\<close> throw; once the request has started the \<open>url\<close> setter and \<open>mock\<close> throw. Each
  throw returns the scenario unchanged. The \<open>url\<close> setter is guarded by the start of the
  request, not of the execution (\<open>_executeRequest\<close> itself assigns the built URL after
  the execution has started), so between the two, and after \<open>skip\<close>, it still changes
  the target: see \<open>mutation_refused_counterexample\<close>.
\<close>

theorem mutation_refused:
  "(hasFinished s \<longrightarrow>
      pushCallbacks k a b s =
        Threw (Thrown (''Can not add '' @ kindName k @ '' callbacks after execution has finished.'')) s \<and>
      next_public (AFunction p) bp s = Threw (Thrown ''Scenario already finished.'') s \<and>
      next_public (AString m) (Some p) s = Threw (Thrown ''Scenario already finished.'') s \<and>
      next_public (AArray (p # ps)) bp s = Threw (Thrown ''Scenario already finished.'') s \<and>
      nextPrepend (AFunction p) bp s = Threw (Thrown ''Scenario already finished.'') s \<and>
      nextPrepend (AString m) (Some p) s = Threw (Thrown ''Scenario already finished.'') s) \<and>
   (hasExecuted s \<longrightarrow>
      set_title t s =
        Threw (Thrown ''Can not change the scenario's title after execution has started.'') s \<and>
      open_url P u s = Threw (Thrown ''Can call open after scenario has executed'') s) \<and>
   (hasRequestStarted s \<longrightarrow>
      set_url P v s =
        Threw (Thrown ''Can not change the URL after the request has already started.'') s \<and>
      mock P u s =
        Threw (Thrown ''Can not change the URL after the request has already started.'') s)"
  by (simp add: pushCallbacks_def next_public_def next_private_def nextPrepend_def
      getCallbackOverload_def set_title_def open_url_def set_url_def mock_def
      split: option.splits)

lemma exampleCompleted_started: "hasRequestStarted exampleCompleted"
  by (simp add: exampleCompleted_value hasRequestStarted_def)

theorem mutation_refused_witness:
  "hasFinished exampleCompleted \<and> hasExecuted exampleCompleted \<and>
   hasRequestStarted exampleCompleted \<and>
   pushCallbacks Pipe (AFunction (exampleHook 40)) None exampleCompleted =
     Threw (Thrown (''Can not add '' @ kindName Pipe @ '' callbacks after execution has finished.''))
       exampleCompleted \<and>
   next_public (AFunction examplePhase) None exampleCompleted =
     Threw (Thrown ''Scenario already finished.'') exampleCompleted \<and>
   set_title ''Renamed'' exampleCompleted =
     Threw (Thrown ''Can not change the scenario's title after execution has started.'')
       exampleCompleted \<and>
   set_url examplePlatform (Some ''/other'') exampleCompleted =
     Threw (Thrown ''Can not change the URL after the request has already started.'')
       exampleCompleted"
  using mutation_refused [of exampleCompleted Pipe "AFunction (exampleHook 40)" None
      examplePhase None _ _ "''Renamed''" examplePlatform _ "Some ''/other''"]
    exampleCompleted_finished exampleCompleted_started
  by blast

theorem mutation_refused_counterexample:
  "hasExecuted exampleSkipped \<and>
   set_url examplePlatform (Some ''/other'') exampleSkipped =
     Ok (exampleSkipped\<lparr>request_uri := Some ''/other''\<rparr>) \<and>
   url (state_of (set_url examplePlatform (Some ''/other'') exampleSkipped)) \<noteq> url exampleSkipped"
  by (simp add: set_url_exampleSkipped)
    (simp add: exampleSkipped_value hasExecuted_def url_def)

subsection \<open>Building the URL\<close>

lemma startsWith_Nil [simp]: "startsWith [] s"
  by (simp add: startsWith_def)

lemma startsWith_Cons [simp]:
  "startsWith (c # p) s = (case s of [] \<Rightarrow> False | d # t \<Rightarrow> c = d \<and> startsWith p t)"
  by (cases s) (auto simp: startsWith_def)




lemma suite_buildUrl_concatenates:
  "b \<noteq> [] \<Longrightarrow> suite_buildUrl (Some b) path = b @ path"
  by (simp add: suite_buildUrl_def)

subsection \<open>Path parameters\<close>

lemma findFirst_sound:
  "findFirst pat s = Some (pre, post) \<Longrightarrow> s = pre @ pat @ post"
proof (induction s arbitrary: pre)
  case Nil
  then show ?case by (auto split: if_splits)
next
  case (Cons c cs)
  show ?case
  proof (cases "take (length pat) (c # cs) = pat")
    case True
    with Cons.prems have "pre = []" "post = drop (length pat) (c # cs)" by auto
    with True show ?thesis by (metis append_Nil append_take_drop_id)
  next
    case False
    with Cons.prems obtain pre' where "findFirst pat cs = Some (pre', post)" "pre = c # pre'"
      by (auto split: option.splits)
    with Cons.IH show ?thesis by auto
  qed
qed



lemma wait_proj [simp]:
  "nextCallbacks (wait b s) = nextCallbacks s"
  "timeScenarioExecuted (wait b s) = timeScenarioExecuted s"
  "request_uri (wait b s) = request_uri s"
  "waitToExecute (wait b s) = b"
  "events (wait b s) = events s"
  by (simp_all add: wait_def Let_def)








subsection \<open>The series of assertion phases\<close>

lemma fold_result:
  "fold (\<lambda>n. result (f n)) xs s = s\<lparr>log := log s @ map f xs\<rparr>"
  by (induction xs arbitrary: s) (simp_all add: result_def pushToLog_def)

lemma phase_cases:
  obtains (throws) e where "ph_throws p = Some e" "phaseError p = Some e" "phaseWait p = 0"
  | (fulfils) t where "ph_throws p = None"
      "promiseTimeout 30000 (promiseAll [ph_return p, ph_assertions p, ph_subscenarios p]) = Fulfils t"
      "phaseError p = None" "phaseWait p = t"
  | (rejects) t e where "ph_throws p = None"
      "promiseTimeout 30000 (promiseAll [ph_return p, ph_assertions p, ph_subscenarios p]) = Rejects t e"
      "phaseError p = Some e" "phaseWait p = t"
proof (cases "ph_throws p")
  case (Some e)
  then show ?thesis using throws by (simp add: phaseError_def phaseWait_def)
next
  case None
  then show ?thesis using fulfils rejects
    by (cases "promiseTimeout 30000 (promiseAll [ph_return p, ph_assertions p, ph_subscenarios p])")
      (simp_all add: phaseError_def phaseWait_def)
qed

lemma runPhases_step:
  "runPhases ((m, p) # phs) s =
     (let s2 = s\<lparr>log := log s @ (case m of None \<Rightarrow> [] | Some c \<Rightarrow> [LogScenarioSubHeading c]) @ ph_logs p,
                  events := events s @ [PhaseStarted (ph_id p) (now s)]\<rparr>;
          s3 = s2\<lparr>log := log s2 @ map (\<lambda>n. AssertionFailWarning (''Incomplete assertion: '' @ n)) (ph_incomplete p),
                   now := now s + int (phaseWait p)\<rparr>
      in case phaseError p of
           None \<Rightarrow> runPhases phs s3
         | Some e \<Rightarrow> Threw e (if ph_throws p = None then s3 else s2))"
  by (cases p rule: phase_cases)
    (simp_all add: Let_def pushToLog_def fold_result split: option.splits)



lemma runPhases_Ok:
  "seriesError (map snd phs) = None \<Longrightarrow> \<exists>s'. runPhases phs s = Ok s'"
proof (induction phs arbitrary: s)
  case Nil
  show ?case by simp
next
  case (Cons mp phs)
  obtain m p where mp: "mp = (m, p)" by (cases mp)
  from Cons.prems have pe: "phaseError p = None" and se: "seriesError (map snd phs) = None"
    by (auto simp: mp split: option.splits)
  show ?case unfolding mp runPhases_step using Cons.IH [OF se] pe by (simp add: Let_def)
qed






lemma seriesError_Some_iff:
  "seriesError ps \<noteq> None \<longleftrightarrow> (\<exists>p \<in> set ps. phaseError p \<noteq> None)"
  by (induction ps) (auto split: option.splits)

lemma phaseStarts_only [simp]:
  "filter isRequestOrPhase (phaseStarts t ps) = phaseStarts t ps"
  "count_list (phaseStarts t ps) (Fired k) = 0"
  by (induction ps arbitrary: t) simp_all







text \<open>
  A phase that rejects with \<open>undefined\<close> ends the series, but \<open>_markScenarioCompleted\<close>
  receives \<open>undefined\<close> as its error message, which the default parameter turns into
  \<open>null\<close>, the value that stands for no error: the scenario is classified by its log
  alone, and here it passes.
\<close>

lemma undefined_rejection_counts_as_pass:
  "seriesError (map snd (nextCallbacks exampleUndefined)) = Some ThrownUndefined \<and>
   hasPassed (state_of (processResponse exampleUndefined)) \<and>
   Fired Success \<in> set (events (state_of (processResponse exampleUndefined))) \<and>
   Fired Failure \<notin> set (events (state_of (processResponse exampleUndefined)))"
  by (simp add: processResponse_exampleUndefined)
    (simp add: exampleUndefined_value hasExecuted_def hasFinished_def hasPassed_def
      hasFailed_def phaseError_def promiseAll_def)

end
